theory Spec2Isabelle
  imports Complex_Main "HOL-Library.Monad_Syntax"
begin

section \<open>JavaScript notions used by the client\<close>

text \<open>
  The observer of the autonomous orchestrator is the React component
  \<^verbatim>\<open>CodeEditorView\<close> (frontend/components/views/CodeEditorView.tsx).  Its state is
  a set of \<^verbatim>\<open>useState\<close> cells; every handler is modelled as a function from the
  state before to the state after, with the server's answer as an argument.

  Strings are byte lists (UTF-8), a value that may be \<^verbatim>\<open>undefined\<close> or
  \<^verbatim>\<open>null\<close> is an option, integers reported by the engine are \<open>int\<close>,
  a \<^verbatim>\<open>Date\<close> is its time value in milliseconds.
\<close>

type_synonym date = int

text \<open>\<^verbatim>\<open>x || d\<close> on a number: 0 and undefined are falsy.\<close>

definition num_or :: "int option \<Rightarrow> int \<Rightarrow> int" where
  "num_or x d = (case x of None \<Rightarrow> d | Some n \<Rightarrow> if n = 0 then d else n)"

text \<open>\<^verbatim>\<open>x || d\<close> on a string: the empty string and undefined are falsy.\<close>

definition str_or :: "string option \<Rightarrow> string \<Rightarrow> string" where
  "str_or x d = (case x of None \<Rightarrow> d | Some s \<Rightarrow> if s = [] then d else s)"

text \<open>\<^verbatim>\<open>x || undefined\<close>.\<close>

definition num_or_undefined :: "int option \<Rightarrow> int option" where
  "num_or_undefined x = (case x of None \<Rightarrow> None | Some n \<Rightarrow> if n = 0 then None else Some n)"

definition str_or_undefined :: "string option \<Rightarrow> string option" where
  "str_or_undefined x = (case x of None \<Rightarrow> None | Some s \<Rightarrow> if s = [] then None else Some s)"

text \<open>\<^verbatim>\<open>x || y\<close> where both sides may be undefined numbers.\<close>

definition num_or_else :: "int option \<Rightarrow> int option \<Rightarrow> int option" where
  "num_or_else x y = (case num_or_undefined x of None \<Rightarrow> y | Some n \<Rightarrow> Some n)"

text \<open>\<^verbatim>\<open>x ?? y\<close>: only null and undefined fall through.\<close>

definition nullish_or :: "'a option \<Rightarrow> 'a option \<Rightarrow> 'a option" where
  "nullish_or x y = (case x of None \<Rightarrow> y | Some v \<Rightarrow> Some v)"

text \<open>
  \<^verbatim>\<open>[...new Set(xs)]\<close>: a Set keeps the first occurrence of every element, in
  insertion order.  \<open>Set_add\<close> is \<^verbatim>\<open>Set.prototype.add\<close> on the list of the
  elements in insertion order.
\<close>

definition Set_add :: "'a list \<Rightarrow> 'a \<Rightarrow> 'a list" where
  "Set_add acc x = (if x \<in> set acc then acc else acc @ [x])"

definition new_Set :: "'a list \<Rightarrow> 'a list" where
  "new_Set xs = foldl Set_add [] xs"

text \<open>\<^verbatim>\<open>xs.slice(-n)\<close>: the last \<open>n\<close> elements, all of them when there are fewer.\<close>

definition slice_last :: "nat \<Rightarrow> 'a list \<Rightarrow> 'a list" where
  "slice_last n xs = drop (length xs - n) xs"

section \<open>JSON values\<close>

text \<open>
  What the server sends and what the component stores as text is JSON.  A value of this
  type is a parsed JSON value; an object's member list has each key once, as a parsed
  object does.  A JavaScript value that may be \<^verbatim>\<open>undefined\<close> is a \<open>json option\<close>.
\<close>

datatype json =
    JNull
  | JBool bool
  | JNum int
  | JStr string
  | JArr "json list"
  | JObj "(string \<times> json) list"

text \<open>
  \<^verbatim>\<open>JSON.stringify\<close> on an object: a member whose value is \<^verbatim>\<open>undefined\<close> is left
  out.
\<close>

definition members :: "(string \<times> json option) list \<Rightarrow> (string \<times> json) list" where
  "members kvs = List.map_filter (\<lambda>(k, v). map_option (Pair k) v) kvs"

definition object_of :: "(string \<times> json option) list \<Rightarrow> json" where
  "object_of kvs = JObj (members kvs)"

text \<open>JavaScript truthiness of a parsed value, and of one that may be undefined.\<close>

fun truthy :: "json \<Rightarrow> bool" where
  "truthy JNull = False"
| "truthy (JBool b) = b"
| "truthy (JNum n) = (n \<noteq> 0)"
| "truthy (JStr s) = (s \<noteq> [])"
| "truthy (JArr xs) = True"
| "truthy (JObj fs) = True"

definition js_truthy :: "json option \<Rightarrow> bool" where
  "js_truthy v = (case v of None \<Rightarrow> False | Some j \<Rightarrow> truthy j)"

text \<open>
  The operations the component applies to such values.  Each may throw a TypeError,
  which is the outer \<open>None\<close>.

  \<^verbatim>\<open>v.k\<close> throws on \<^verbatim>\<open>undefined\<close> and on \<^verbatim>\<open>null\<close>; on an object it is the member, or
  \<^verbatim>\<open>undefined\<close> when there is none; on any other value it is \<^verbatim>\<open>undefined\<close> (the keys
  read below are not properties of strings, numbers, booleans or arrays).
\<close>

fun js_prop :: "json option \<Rightarrow> string \<Rightarrow> json option option" where
  "js_prop None k = None"
| "js_prop (Some JNull) k = None"
| "js_prop (Some (JObj fs)) k = Some (map_of fs k)"
| "js_prop (Some v) k = Some None"

text \<open>
  \<^verbatim>\<open>v.map(f)\<close>: only an array has \<^verbatim>\<open>map\<close>; a throw inside \<open>f\<close> is a throw of the
  whole.
\<close>

definition js_map :: "(json \<Rightarrow> 'a option) \<Rightarrow> json option \<Rightarrow> 'a list option" where
  "js_map f v = (case v of Some (JArr xs) \<Rightarrow> those (map f xs) | _ \<Rightarrow> None)"


text \<open>
  \<^verbatim>\<open>[...v]\<close>: an array gives its elements, a string its code points, each as a string;
  nothing else is iterable.  In UTF-8 a code point is a byte that is not a continuation
  byte, followed by continuation bytes.
\<close>

definition is_continuation :: "char \<Rightarrow> bool" where
  "is_continuation c = (128 \<le> (of_char c :: nat) \<and> (of_char c :: nat) < 192)"

definition code_points :: "string \<Rightarrow> string list" where
  "code_points s =
     foldr (\<lambda>c acc. case acc of
                       [] \<Rightarrow> [[c]]
                     | g # gs \<Rightarrow> if is_continuation (hd g) then (c # g) # gs
                                else [c] # g # gs) s []"

definition js_spread :: "json option \<Rightarrow> json list option" where
  "js_spread v =
     (case v of
        Some (JArr xs) \<Rightarrow> Some xs
      | Some (JStr s) \<Rightarrow> Some (map JStr (code_points s))
      | _ \<Rightarrow> None)"

text \<open>
  Reading a parsed value at a declared type: \<open>None\<close> when the value does not have the
  shape.
\<close>

fun as_num :: "json \<Rightarrow> int option" where
  "as_num (JNum n) = Some n"
| "as_num _ = None"

fun as_str :: "json \<Rightarrow> string option" where
  "as_str (JStr s) = Some s"
| "as_str _ = None"

fun as_bool :: "json \<Rightarrow> bool option" where
  "as_bool (JBool b) = Some b"
| "as_bool _ = None"

definition as_list :: "(json \<Rightarrow> 'a option) \<Rightarrow> json \<Rightarrow> 'a list option" where
  "as_list f j = (case j of JArr xs \<Rightarrow> those (map f xs) | _ \<Rightarrow> None)"

definition required :: "(json \<Rightarrow> 'a option) \<Rightarrow> (string \<times> json) list \<Rightarrow> string \<Rightarrow> 'a option" where
  "required f fs k = (case map_of fs k of None \<Rightarrow> None | Some v \<Rightarrow> f v)"

definition optional ::
  "(json \<Rightarrow> 'a option) \<Rightarrow> (string \<times> json) list \<Rightarrow> string \<Rightarrow> 'a option option" where
  "optional f fs k = (case map_of fs k of None \<Rightarrow> Some None | Some v \<Rightarrow> map_option Some (f v))"

text \<open>
  \<^verbatim>\<open>String.prototype.trim\<close> removes white space and line terminators from both ends:
  U+0009 to U+000D, U+0020, U+00A0, U+1680, U+2000 to U+200A, U+2028, U+2029, U+202F,
  U+205F, U+3000 and U+FEFF.  \<open>blanks\<close> lists them in UTF-8.
\<close>

definition blanks :: "string list" where
  "blanks =
     [[CHR 0x09], [CHR 0x0A], [CHR 0x0B], [CHR 0x0C], [CHR 0x0D], [CHR 0x20],
      [CHR 0xC2, CHR 0xA0],
      [CHR 0xE1, CHR 0x9A, CHR 0x80],
      [CHR 0xE2, CHR 0x80, CHR 0x80], [CHR 0xE2, CHR 0x80, CHR 0x81],
      [CHR 0xE2, CHR 0x80, CHR 0x82], [CHR 0xE2, CHR 0x80, CHR 0x83],
      [CHR 0xE2, CHR 0x80, CHR 0x84], [CHR 0xE2, CHR 0x80, CHR 0x85],
      [CHR 0xE2, CHR 0x80, CHR 0x86], [CHR 0xE2, CHR 0x80, CHR 0x87],
      [CHR 0xE2, CHR 0x80, CHR 0x88], [CHR 0xE2, CHR 0x80, CHR 0x89],
      [CHR 0xE2, CHR 0x80, CHR 0x8A],
      [CHR 0xE2, CHR 0x80, CHR 0xA8], [CHR 0xE2, CHR 0x80, CHR 0xA9],
      [CHR 0xE2, CHR 0x80, CHR 0xAF],
      [CHR 0xE2, CHR 0x81, CHR 0x9F],
      [CHR 0xE3, CHR 0x80, CHR 0x80],
      [CHR 0xEF, CHR 0xBB, CHR 0xBF]]"

text \<open>The blank a string starts with, if any, and the string without its leading blanks.\<close>

definition leading_blank :: "string list \<Rightarrow> string \<Rightarrow> string option" where
  "leading_blank bs s = List.find (\<lambda>b. b \<noteq> [] \<and> take (length b) s = b) bs"

function drop_blanks :: "string list \<Rightarrow> string \<Rightarrow> string" where
  "drop_blanks bs s =
     (case leading_blank bs s of
        None \<Rightarrow> s
      | Some b \<Rightarrow> drop_blanks bs (drop (length b) s))"
  by pat_completeness auto
termination
proof (relation "measure (\<lambda>(bs, s). length s)")
  show "wf (measure (\<lambda>(bs, s). length s))" by simp
next
  fix bs :: "string list" and s b :: string
  assume "leading_blank bs s = Some b"
  then have nonempty: "b \<noteq> []" and starts: "take (length b) s = b"
    by (auto simp: leading_blank_def find_Some_iff)
  from starts have "length (take (length b) s) = length b"
    by simp
  then have "length b \<le> length s"
    by (simp add: min_def split: if_splits)
  with nonempty have "length s - length b < length s"
    by (cases b) auto
  then show "((bs, drop (length b) s), (bs, s)) \<in> measure (\<lambda>(bs, s). length s)"
    by simp
qed

declare drop_blanks.simps [simp del]

text \<open>The trailing blanks are the leading blanks of the reversed string, reversed.\<close>

definition trim :: "string \<Rightarrow> string" where
  "trim s = rev (drop_blanks (map rev blanks) (rev (drop_blanks blanks s)))"

section \<open>The observer's progress record\<close>

record log_entry =
  log_type :: string
  message :: string
  timestamp :: date

record phase_summary =
  ps_phase_id :: int
  ps_name :: string
  ps_description :: string

text \<open>The state cell \<^verbatim>\<open>autonomousProgress\<close>; optional fields are options.\<close>

record autonomous_progress =
  iteration :: int
  progress :: int
  analysis :: string
  filesCreated :: "string list"
  isComplete :: bool
  logs :: "log_entry list"
  currentPhase :: "string option"
  currentPhaseName :: "string option"
  currentPhaseId :: "int option"
  totalPhases :: "int option"
  phases :: "phase_summary list option"
  ap_task :: "string option"
  startedAt :: "string option"
  workerCount :: "int option"
  ap_maxParallelWorkers :: "int option"
  activeWorkers :: "int option"

text \<open>
  The object literal every fresh start writes (\<^verbatim>\<open>startBackgroundTask\<close>,
  \<^verbatim>\<open>handleApprovePlanAndExecute\<close>, \<^verbatim>\<open>handleAutonomousConductorDirect\<close>, and the
  clear-history button): the six listed fields, every other field absent.
\<close>

definition zero_progress :: autonomous_progress where
  "zero_progress =
     \<lparr> iteration = 0, progress = 0, analysis = [], filesCreated = [], isComplete = False,
       logs = [], currentPhase = None, currentPhaseName = None, currentPhaseId = None,
       totalPhases = None, phases = None, ap_task = None, startedAt = None,
       workerCount = None, ap_maxParallelWorkers = None, activeWorkers = None \<rparr>"

text \<open>The value \<^verbatim>\<open>useState\<close> starts from when nothing can be restored.\<close>

definition initial_progress :: autonomous_progress where
  "initial_progress =
     zero_progress \<lparr> workerCount := Some 0, ap_maxParallelWorkers := Some 0,
                     activeWorkers := Some 0 \<rparr>"

section \<open>Stream events (processAutonomousStream)\<close>

text \<open>
  One constructor per \<^verbatim>\<open>case\<close> of the switch on \<^verbatim>\<open>event.type\<close>, carrying the
  fields the state updates read; \<open>E_other\<close> is any other type.
\<close>

datatype stream_event =
    E_start
  | E_plan_loaded
  | E_iteration_start int
  | E_phase_start string
  | E_decision "int option" "string option"
  | E_parallel_start
  | E_parallel_complete
  | E_file_created string bool
  | E_file_deleted string
  | E_worker_start
  | E_worker_complete
  | E_task_complete
  | E_complete
  | E_error
  | E_other

text \<open>\<^verbatim>\<open>addLog\<close>: keep the last 50 entries and append one stamped with the clock.\<close>

definition addLog :: "date \<Rightarrow> string \<Rightarrow> string \<Rightarrow> autonomous_progress \<Rightarrow> autonomous_progress" where
  "addLog now ty msg prev =
     prev \<lparr> logs := slice_last 50 (logs prev) @
                      [\<lparr> log_type = ty, message = msg, timestamp = now \<rparr>] \<rparr>"

text \<open>The updater of the \<^verbatim>\<open>'file_created'\<close> case.\<close>

definition file_created_update :: "string \<Rightarrow> autonomous_progress \<Rightarrow> autonomous_progress" where
  "file_created_update path prev =
     prev \<lparr> filesCreated := new_Set (filesCreated prev @ [path]) \<rparr>"

text \<open>The updater of the \<^verbatim>\<open>'decision'\<close> case.\<close>

definition decision_update ::
  "int option \<Rightarrow> string option \<Rightarrow> autonomous_progress \<Rightarrow> autonomous_progress" where
  "decision_update ev_progress ev_analysis prev =
     prev \<lparr> progress := num_or ev_progress 0, analysis := str_or ev_analysis [] \<rparr>"

text \<open>
  The body of the switch.  \<open>now\<close> is the clock read by \<^verbatim>\<open>addLog\<close>, \<open>text\<close> the
  message the template string of the case builds from the event.
\<close>

fun process_event ::
  "date \<Rightarrow> string \<Rightarrow> stream_event \<Rightarrow> autonomous_progress \<Rightarrow> autonomous_progress" where
  "process_event now text E_start prev = addLog now ''info'' text prev"
| "process_event now text E_plan_loaded prev = addLog now ''plan'' text prev"
| "process_event now text (E_iteration_start i) prev =
     addLog now ''iteration'' text (prev \<lparr> iteration := i \<rparr>)"
| "process_event now text (E_phase_start n) prev =
     addLog now ''phase'' text (prev \<lparr> currentPhase := Some n \<rparr>)"
| "process_event now text (E_decision p a) prev =
     addLog now ''decision'' text (decision_update p a prev)"
| "process_event now text E_parallel_start prev = addLog now ''parallel'' text prev"
| "process_event now text E_parallel_complete prev = addLog now ''parallel'' text prev"
| "process_event now text (E_file_created path par) prev =
     addLog now ''file'' text (file_created_update path prev)"
| "process_event now text (E_file_deleted path) prev = addLog now ''file'' text prev"
| "process_event now text E_worker_start prev = addLog now ''worker'' text prev"
| "process_event now text E_worker_complete prev = addLog now ''worker'' text prev"
| "process_event now text E_task_complete prev =
     addLog now ''success'' text (prev \<lparr> isComplete := True, progress := 100 \<rparr>)"
| "process_event now text E_complete prev = addLog now ''info'' text prev"
| "process_event now text E_error prev = addLog now ''error'' text prev"
| "process_event now text E_other prev = prev"

text \<open>The stream: each parsed event in turn, with its clock reading and message.\<close>

fun process_events ::
  "(date \<times> string \<times> stream_event) list \<Rightarrow> autonomous_progress \<Rightarrow> autonomous_progress" where
  "process_events [] prev = prev"
| "process_events ((now, text, ev) # rest) prev =
     process_events rest (process_event now text ev prev)"

section \<open>Background tasks and polling (startPolling)\<close>

datatype task_status = Pending | Running | Completed | Stopped | Error | Cancelled

record BackgroundTask =
  bt_id :: string
  bt_workspace :: string
  bt_task :: string
  bt_status :: task_status
  bt_created_at :: string
  bt_started_at :: "string option"
  bt_completed_at :: "string option"
  bt_iteration :: int
  bt_progress :: int
  bt_analysis :: string
  files_created :: "string list"
  current_phase :: "string option"
  current_phase_name :: "string option"
  current_phase_id :: "int option"
  total_phases :: "int option"
  bt_phases :: "phase_summary list option"
  is_complete :: bool
  bt_error :: "string option"
  conductor_model :: "string option"
  worker_models :: "string list option"
  worker_count :: "int option"
  bt_max_parallel_workers :: "int option"
  active_workers :: "int option"

record TaskLog =
  tl_type :: string
  tl_message :: string
  tl_timestamp :: string

text \<open>The first updater of \<^verbatim>\<open>poll\<close>: the fetched task overwrites the observer's copy.\<close>

definition poll_update :: "BackgroundTask \<Rightarrow> autonomous_progress \<Rightarrow> autonomous_progress" where
  "poll_update t prev =
     prev \<lparr> iteration := bt_iteration t,
            progress := bt_progress t,
            analysis := bt_analysis t,
            filesCreated := files_created t,
            isComplete := is_complete t,
            currentPhase := str_or_undefined (current_phase t),
            currentPhaseName := str_or_undefined (current_phase_name t),
            currentPhaseId := num_or_undefined (current_phase_id t),
            totalPhases := num_or_undefined (total_phases t),
            phases := bt_phases t,
            workerCount := num_or_else (worker_count t) (workerCount prev),
            ap_maxParallelWorkers :=
              num_or_else (bt_max_parallel_workers t) (ap_maxParallelWorkers prev),
            activeWorkers := nullish_or (active_workers t) (activeWorkers prev) \<rparr>"

text \<open>
  The second updater of \<^verbatim>\<open>poll\<close>: fetched logs, when there are any, replace the
  list; \<open>Date_parse\<close> is \<^verbatim>\<open>new Date(string)\<close>.
\<close>

definition poll_logs_update ::
  "(string \<Rightarrow> date) \<Rightarrow> TaskLog list \<Rightarrow> autonomous_progress \<Rightarrow> autonomous_progress" where
  "poll_logs_update Date_parse ls prev =
     (if length ls > 0
      then prev \<lparr> logs := map (\<lambda>l. \<lparr> log_type = tl_type l, message = tl_message l,
                                      timestamp = Date_parse (tl_timestamp l) \<rparr>) ls \<rparr>
      else prev)"

section \<open>Plans and requests\<close>

text \<open>
  The declared type of the state cell \<^verbatim>\<open>generatedPlan\<close> (without its \<^verbatim>\<open>| null\<close>), with
  its phases and files; every field is required by the declaration.
\<close>

record plan_file =
  f_path :: string
  f_description :: string
  f_dependencies :: "string list"
  f_can_parallelize :: bool

record phase =
  ph_phase_id :: int
  ph_name :: string
  ph_description :: string
  ph_estimated_iterations :: int
  files_to_create :: "plan_file list"
  ph_completion_criteria :: string

record plan =
  project_name :: string
  p_description :: string
  architecture :: string
  p_phases :: "phase list"
  final_structure :: "string list"
  p_completion_criteria :: string
  risks :: "string list"

text \<open>
  The cell itself holds what the plan endpoint sent under \<^verbatim>\<open>plan\<close>, unchecked: a JSON
  value.  A plan of the declared type is this JSON value, and a JSON value that has the
  declared fields at the declared types (in any order, among any other keys) is read as
  a plan by \<open>plan_of\<close>.  The component shows and copies a plan that has no \<^verbatim>\<open>risks\<close>
  (it tests \<^verbatim>\<open>generatedPlan.risks\<close> before every use), so \<open>plan_of\<close> reads missing
  risks as none.
\<close>

definition plan_file_toJSON :: "plan_file \<Rightarrow> json" where
  "plan_file_toJSON file =
     object_of [(''path'', Some (JStr (f_path file))),
                (''description'', Some (JStr (f_description file))),
                (''dependencies'', Some (JArr (map JStr (f_dependencies file)))),
                (''can_parallelize'', Some (JBool (f_can_parallelize file)))]"

definition plan_phase_toJSON :: "phase \<Rightarrow> json" where
  "plan_phase_toJSON ph =
     object_of [(''phase_id'', Some (JNum (ph_phase_id ph))),
                (''name'', Some (JStr (ph_name ph))),
                (''description'', Some (JStr (ph_description ph))),
                (''estimated_iterations'', Some (JNum (ph_estimated_iterations ph))),
                (''files_to_create'', Some (JArr (map plan_file_toJSON (files_to_create ph)))),
                (''completion_criteria'', Some (JStr (ph_completion_criteria ph)))]"

definition plan_toJSON :: "plan \<Rightarrow> json" where
  "plan_toJSON p =
     object_of [(''project_name'', Some (JStr (project_name p))),
                (''description'', Some (JStr (p_description p))),
                (''architecture'', Some (JStr (architecture p))),
                (''phases'', Some (JArr (map plan_phase_toJSON (p_phases p)))),
                (''final_structure'', Some (JArr (map JStr (final_structure p)))),
                (''completion_criteria'', Some (JStr (p_completion_criteria p))),
                (''risks'', Some (JArr (map JStr (risks p))))]"




text \<open>
  The copy \<^verbatim>\<open>handleGeneratePlan\<close> builds for \<^verbatim>\<open>previous_plan\<close>, inside its
  \<^verbatim>\<open>try\<close>: the listed properties are read one by one from the stored value, the
  arrays through \<^verbatim>\<open>map\<close> and the spread, and \<^verbatim>\<open>risks\<close> through
  \<^verbatim>\<open>generatedPlan.risks ? [...generatedPlan.risks] : []\<close>.  \<open>None\<close> is a throw.  The
  result is the copy as the request body carries it: a property that was read as
  \<^verbatim>\<open>undefined\<close> is left out by \<^verbatim>\<open>JSON.stringify\<close>, and keys that are not read are
  not copied.
\<close>

definition copy_file :: "json \<Rightarrow> json option" where
  "copy_file file =
     do { p \<leftarrow> js_prop (Some file) ''path'';
          d \<leftarrow> js_prop (Some file) ''description'';
          dv \<leftarrow> js_prop (Some file) ''dependencies'';
          ds \<leftarrow> js_spread dv;
          c \<leftarrow> js_prop (Some file) ''can_parallelize'';
          Some (object_of [(''path'', p), (''description'', d),
                           (''dependencies'', Some (JArr ds)), (''can_parallelize'', c)]) }"

definition copy_phase :: "json \<Rightarrow> json option" where
  "copy_phase ph =
     do { i \<leftarrow> js_prop (Some ph) ''phase_id'';
          n \<leftarrow> js_prop (Some ph) ''name'';
          d \<leftarrow> js_prop (Some ph) ''description'';
          e \<leftarrow> js_prop (Some ph) ''estimated_iterations'';
          fv \<leftarrow> js_prop (Some ph) ''files_to_create'';
          fl \<leftarrow> js_map copy_file fv;
          c \<leftarrow> js_prop (Some ph) ''completion_criteria'';
          Some (object_of [(''phase_id'', i), (''name'', n), (''description'', d),
                           (''estimated_iterations'', e),
                           (''files_to_create'', Some (JArr fl)),
                           (''completion_criteria'', c)]) }"

definition copy_plan :: "json \<Rightarrow> json option" where
  "copy_plan p =
     do { n \<leftarrow> js_prop (Some p) ''project_name'';
          d \<leftarrow> js_prop (Some p) ''description'';
          a \<leftarrow> js_prop (Some p) ''architecture'';
          pv \<leftarrow> js_prop (Some p) ''phases'';
          phs \<leftarrow> js_map copy_phase pv;
          sv \<leftarrow> js_prop (Some p) ''final_structure'';
          st \<leftarrow> js_spread sv;
          c \<leftarrow> js_prop (Some p) ''completion_criteria'';
          rv \<leftarrow> js_prop (Some p) ''risks'';
          r \<leftarrow> (if js_truthy rv then js_spread rv else Some []);
          Some (object_of [(''project_name'', n), (''description'', d),
                           (''architecture'', a), (''phases'', Some (JArr phs)),
                           (''final_structure'', Some (JArr st)),
                           (''completion_criteria'', c), (''risks'', Some (JArr r))]) }"

text \<open>The request bodies; the common fields first, then what each endpoint adds.\<close>

record autonomous_request =
  conductor_model_id :: string
  worker_model_ids :: "string list"
  req_task :: string
  max_iterations :: real
  max_tokens :: int
  temperature :: real
  max_parallel_workers :: real

record plan_request = autonomous_request +
  feedback :: "string option"
  previous_plan :: "json option"

record background_request = autonomous_request +
  approved_plan :: "json option"

record cancel_request =
  purge_files :: bool
  purge_logs :: bool

text \<open>
  What a \<^verbatim>\<open>fetch\<close> followed by \<^verbatim>\<open>response.json()\<close> can give: a rejected promise
  (caught by the handler's \<^verbatim>\<open>catch\<close>), a response whose \<^verbatim>\<open>ok\<close> is false, or the
  parsed body of an ok response.
\<close>

datatype 'a fetch_result = Threw | Not_ok | Ok_json 'a

record plan_response =
  success :: bool
  pr_plan :: "json option"
  raw_output :: "string option"

record start_response =
  sr_success :: bool
  sr_task_id :: "string option"

record resume_response =
  rr_task_id :: "string option"

record cancel_response =
  purged_files :: "string list option"

section \<open>Texts shown to the user\<close>

text \<open>
  The string literals of the handlers below, which are Japanese, as UTF-8 bytes.  In
  English: \<open>plan_failed_prefix\<close> "Plan generation failed: ";
  \<open>plan_exception_message\<close> "An error occurred while generating the plan";
  \<open>input_error_title\<close> "Input error"; \<open>input_error_message\<close> "Select or enter the
  workspace, the conductor model, the worker models and the task"; \<open>error_title\<close>
  "Error"; \<open>background_start_failed\<close> "Failed to start the background task";
  \<open>resume_failed\<close> "Failed to resume the task"; \<open>plan_execute_failed\<close> "Execution
  from the plan failed"; \<open>direct_execute_failed\<close> "Execution of the autonomous conductor
  failed"; \<open>cancel_title\<close> "Cancel the task"; \<open>cancel_question\<close> "What shall be done
  with the created files?"; \<open>cancel_confirm_text\<close> "Delete the files and cancel";
  \<open>cancel_cancel_text\<close> "Keep the files and cancel"; \<open>cancel_third_text\<close> "Do
  nothing"; \<open>purge_done_title\<close> "Deleted"; \<open>purge_done_suffix\<close> " files were deleted";
  \<open>clear_title\<close> "Clear the history"; \<open>clear_question\<close> "Clear the execution
  history?"; \<open>clear_confirm_text\<close> "Clear"; \<open>default_cancel_text\<close> "Cancel".
\<close>

definition plan_failed_prefix :: string where
  "plan_failed_prefix =
     [CHR 0xE8, CHR 0xA8, CHR 0x88, CHR 0xE7, CHR 0x94, CHR 0xBB, CHR 0xE3, CHR 0x81, CHR 0xAE,
      CHR 0xE7, CHR 0x94, CHR 0x9F, CHR 0xE6, CHR 0x88, CHR 0x90, CHR 0xE3, CHR 0x81, CHR 0xAB,
      CHR 0xE5, CHR 0xA4, CHR 0xB1, CHR 0xE6, CHR 0x95, CHR 0x97, CHR 0xE3, CHR 0x81, CHR 0x97,
      CHR 0xE3, CHR 0x81, CHR 0xBE, CHR 0xE3, CHR 0x81, CHR 0x97, CHR 0xE3, CHR 0x81, CHR 0x9F,
      CHR 0x3A, CHR 0x20]"

definition plan_exception_message :: string where
  "plan_exception_message =
     [CHR 0xE8, CHR 0xA8, CHR 0x88, CHR 0xE7, CHR 0x94, CHR 0xBB, CHR 0xE7, CHR 0x94, CHR 0x9F,
      CHR 0xE6, CHR 0x88, CHR 0x90, CHR 0xE4, CHR 0xB8, CHR 0xAD, CHR 0xE3, CHR 0x81, CHR 0xAB,
      CHR 0xE3, CHR 0x82, CHR 0xA8, CHR 0xE3, CHR 0x83, CHR 0xA9, CHR 0xE3, CHR 0x83, CHR 0xBC,
      CHR 0xE3, CHR 0x81, CHR 0x8C, CHR 0xE7, CHR 0x99, CHR 0xBA, CHR 0xE7, CHR 0x94, CHR 0x9F,
      CHR 0xE3, CHR 0x81, CHR 0x97, CHR 0xE3, CHR 0x81, CHR 0xBE, CHR 0xE3, CHR 0x81, CHR 0x97,
      CHR 0xE3, CHR 0x81, CHR 0x9F]"

definition input_error_title :: string where
  "input_error_title =
     [CHR 0xE5, CHR 0x85, CHR 0xA5, CHR 0xE5, CHR 0x8A, CHR 0x9B, CHR 0xE3, CHR 0x82, CHR 0xA8,
      CHR 0xE3, CHR 0x83, CHR 0xA9, CHR 0xE3, CHR 0x83, CHR 0xBC]"

definition input_error_message :: string where
  "input_error_message =
     [CHR 0xE3, CHR 0x83, CHR 0xAF, CHR 0xE3, CHR 0x83, CHR 0xBC, CHR 0xE3, CHR 0x82, CHR 0xAF,
      CHR 0xE3, CHR 0x82, CHR 0xB9, CHR 0xE3, CHR 0x83, CHR 0x9A, CHR 0xE3, CHR 0x83, CHR 0xBC,
      CHR 0xE3, CHR 0x82, CHR 0xB9, CHR 0xE3, CHR 0x80, CHR 0x81, CHR 0xE6, CHR 0x8C, CHR 0x87,
      CHR 0xE6, CHR 0x8F, CHR 0xAE, CHR 0xE8, CHR 0x80, CHR 0x85, CHR 0xE3, CHR 0x83, CHR 0xA2,
      CHR 0xE3, CHR 0x83, CHR 0x87, CHR 0xE3, CHR 0x83, CHR 0xAB, CHR 0xE3, CHR 0x80, CHR 0x81,
      CHR 0xE3, CHR 0x83, CHR 0xAF, CHR 0xE3, CHR 0x83, CHR 0xBC, CHR 0xE3, CHR 0x82, CHR 0xAB,
      CHR 0xE3, CHR 0x83, CHR 0xBC, CHR 0xE3, CHR 0x83, CHR 0xA2, CHR 0xE3, CHR 0x83, CHR 0x87,
      CHR 0xE3, CHR 0x83, CHR 0xAB, CHR 0xE3, CHR 0x80, CHR 0x81, CHR 0xE3, CHR 0x82, CHR 0xBF,
      CHR 0xE3, CHR 0x82, CHR 0xB9, CHR 0xE3, CHR 0x82, CHR 0xAF, CHR 0xE3, CHR 0x82, CHR 0x92,
      CHR 0xE9, CHR 0x81, CHR 0xB8, CHR 0xE6, CHR 0x8A, CHR 0x9E, CHR 0x2F, CHR 0xE5, CHR 0x85,
      CHR 0xA5, CHR 0xE5, CHR 0x8A, CHR 0x9B, CHR 0xE3, CHR 0x81, CHR 0x97, CHR 0xE3, CHR 0x81,
      CHR 0xA6, CHR 0xE3, CHR 0x81, CHR 0x8F, CHR 0xE3, CHR 0x81, CHR 0xA0, CHR 0xE3, CHR 0x81,
      CHR 0x95, CHR 0xE3, CHR 0x81, CHR 0x84]"

definition error_title :: string where
  "error_title =
     [CHR 0xE3, CHR 0x82, CHR 0xA8, CHR 0xE3, CHR 0x83, CHR 0xA9, CHR 0xE3, CHR 0x83, CHR 0xBC]"

definition background_start_failed :: string where
  "background_start_failed =
     [CHR 0xE3, CHR 0x83, CHR 0x90, CHR 0xE3, CHR 0x83, CHR 0x83, CHR 0xE3, CHR 0x82, CHR 0xAF,
      CHR 0xE3, CHR 0x82, CHR 0xB0, CHR 0xE3, CHR 0x83, CHR 0xA9, CHR 0xE3, CHR 0x82, CHR 0xA6,
      CHR 0xE3, CHR 0x83, CHR 0xB3, CHR 0xE3, CHR 0x83, CHR 0x89, CHR 0xE3, CHR 0x82, CHR 0xBF,
      CHR 0xE3, CHR 0x82, CHR 0xB9, CHR 0xE3, CHR 0x82, CHR 0xAF, CHR 0xE3, CHR 0x81, CHR 0xAE,
      CHR 0xE9, CHR 0x96, CHR 0x8B, CHR 0xE5, CHR 0xA7, CHR 0x8B, CHR 0xE3, CHR 0x81, CHR 0xAB,
      CHR 0xE5, CHR 0xA4, CHR 0xB1, CHR 0xE6, CHR 0x95, CHR 0x97, CHR 0xE3, CHR 0x81, CHR 0x97,
      CHR 0xE3, CHR 0x81, CHR 0xBE, CHR 0xE3, CHR 0x81, CHR 0x97, CHR 0xE3, CHR 0x81, CHR 0x9F]"

definition resume_failed :: string where
  "resume_failed =
     [CHR 0xE3, CHR 0x82, CHR 0xBF, CHR 0xE3, CHR 0x82, CHR 0xB9, CHR 0xE3, CHR 0x82, CHR 0xAF,
      CHR 0xE3, CHR 0x81, CHR 0xAE, CHR 0xE5, CHR 0x86, CHR 0x8D, CHR 0xE9, CHR 0x96, CHR 0x8B,
      CHR 0xE3, CHR 0x81, CHR 0xAB, CHR 0xE5, CHR 0xA4, CHR 0xB1, CHR 0xE6, CHR 0x95, CHR 0x97,
      CHR 0xE3, CHR 0x81, CHR 0x97, CHR 0xE3, CHR 0x81, CHR 0xBE, CHR 0xE3, CHR 0x81, CHR 0x97,
      CHR 0xE3, CHR 0x81, CHR 0x9F]"

definition plan_execute_failed :: string where
  "plan_execute_failed =
     [CHR 0xE8, CHR 0xA8, CHR 0x88, CHR 0xE7, CHR 0x94, CHR 0xBB, CHR 0xE3, CHR 0x81, CHR 0xAB,
      CHR 0xE5, CHR 0x9F, CHR 0xBA, CHR 0xE3, CHR 0x81, CHR 0xA5, CHR 0xE3, CHR 0x81, CHR 0x8F,
      CHR 0xE5, CHR 0xAE, CHR 0x9F, CHR 0xE8, CHR 0xA1, CHR 0x8C, CHR 0xE3, CHR 0x81, CHR 0xAB,
      CHR 0xE5, CHR 0xA4, CHR 0xB1, CHR 0xE6, CHR 0x95, CHR 0x97, CHR 0xE3, CHR 0x81, CHR 0x97,
      CHR 0xE3, CHR 0x81, CHR 0xBE, CHR 0xE3, CHR 0x81, CHR 0x97, CHR 0xE3, CHR 0x81, CHR 0x9F]"

definition direct_execute_failed :: string where
  "direct_execute_failed =
     [CHR 0xE8, CHR 0x87, CHR 0xAA, CHR 0xE5, CHR 0xBE, CHR 0x8B, CHR 0xE5, CHR 0x9E, CHR 0x8B,
      CHR 0xE6, CHR 0x8C, CHR 0x87, CHR 0xE6, CHR 0x8F, CHR 0xAE, CHR 0xE8, CHR 0x80, CHR 0x85,
      CHR 0xE3, CHR 0x81, CHR 0xAE, CHR 0xE5, CHR 0xAE, CHR 0x9F, CHR 0xE8, CHR 0xA1, CHR 0x8C,
      CHR 0xE3, CHR 0x81, CHR 0xAB, CHR 0xE5, CHR 0xA4, CHR 0xB1, CHR 0xE6, CHR 0x95, CHR 0x97,
      CHR 0xE3, CHR 0x81, CHR 0x97, CHR 0xE3, CHR 0x81, CHR 0xBE, CHR 0xE3, CHR 0x81, CHR 0x97,
      CHR 0xE3, CHR 0x81, CHR 0x9F]"

definition cancel_title :: string where
  "cancel_title =
     [CHR 0xE3, CHR 0x82, CHR 0xBF, CHR 0xE3, CHR 0x82, CHR 0xB9, CHR 0xE3, CHR 0x82, CHR 0xAF,
      CHR 0xE3, CHR 0x82, CHR 0x92, CHR 0xE3, CHR 0x82, CHR 0xAD, CHR 0xE3, CHR 0x83, CHR 0xA3,
      CHR 0xE3, CHR 0x83, CHR 0xB3, CHR 0xE3, CHR 0x82, CHR 0xBB, CHR 0xE3, CHR 0x83, CHR 0xAB]"

definition cancel_question :: string where
  "cancel_question =
     [CHR 0xE4, CHR 0xBD, CHR 0x9C, CHR 0xE6, CHR 0x88, CHR 0x90, CHR 0xE3, CHR 0x81, CHR 0x95,
      CHR 0xE3, CHR 0x82, CHR 0x8C, CHR 0xE3, CHR 0x81, CHR 0x9F, CHR 0xE3, CHR 0x83, CHR 0x95,
      CHR 0xE3, CHR 0x82, CHR 0xA1, CHR 0xE3, CHR 0x82, CHR 0xA4, CHR 0xE3, CHR 0x83, CHR 0xAB,
      CHR 0xE3, CHR 0x82, CHR 0x92, CHR 0xE3, CHR 0x81, CHR 0xA9, CHR 0xE3, CHR 0x81, CHR 0x86,
      CHR 0xE3, CHR 0x81, CHR 0x97, CHR 0xE3, CHR 0x81, CHR 0xBE, CHR 0xE3, CHR 0x81, CHR 0x99,
      CHR 0xE3, CHR 0x81, CHR 0x8B, CHR 0xEF, CHR 0xBC, CHR 0x9F]"

definition cancel_confirm_text :: string where
  "cancel_confirm_text =
     [CHR 0xE3, CHR 0x83, CHR 0x95, CHR 0xE3, CHR 0x82, CHR 0xA1, CHR 0xE3, CHR 0x82, CHR 0xA4,
      CHR 0xE3, CHR 0x83, CHR 0xAB, CHR 0xE3, CHR 0x82, CHR 0x92, CHR 0xE5, CHR 0x89, CHR 0x8A,
      CHR 0xE9, CHR 0x99, CHR 0xA4, CHR 0xE3, CHR 0x81, CHR 0x97, CHR 0xE3, CHR 0x81, CHR 0xA6,
      CHR 0xE3, CHR 0x82, CHR 0xAD, CHR 0xE3, CHR 0x83, CHR 0xA3, CHR 0xE3, CHR 0x83, CHR 0xB3,
      CHR 0xE3, CHR 0x82, CHR 0xBB, CHR 0xE3, CHR 0x83, CHR 0xAB]"

definition cancel_cancel_text :: string where
  "cancel_cancel_text =
     [CHR 0xE3, CHR 0x83, CHR 0x95, CHR 0xE3, CHR 0x82, CHR 0xA1, CHR 0xE3, CHR 0x82, CHR 0xA4,
      CHR 0xE3, CHR 0x83, CHR 0xAB, CHR 0xE3, CHR 0x82, CHR 0x92, CHR 0xE6, CHR 0xAE, CHR 0x8B,
      CHR 0xE3, CHR 0x81, CHR 0x97, CHR 0xE3, CHR 0x81, CHR 0xA6, CHR 0xE3, CHR 0x82, CHR 0xAD,
      CHR 0xE3, CHR 0x83, CHR 0xA3, CHR 0xE3, CHR 0x83, CHR 0xB3, CHR 0xE3, CHR 0x82, CHR 0xBB,
      CHR 0xE3, CHR 0x83, CHR 0xAB]"

definition cancel_third_text :: string where
  "cancel_third_text =
     [CHR 0xE4, CHR 0xBD, CHR 0x95, CHR 0xE3, CHR 0x82, CHR 0x82, CHR 0xE3, CHR 0x81, CHR 0x97,
      CHR 0xE3, CHR 0x81, CHR 0xAA, CHR 0xE3, CHR 0x81, CHR 0x84]"

definition purge_done_title :: string where
  "purge_done_title =
     [CHR 0xE5, CHR 0x89, CHR 0x8A, CHR 0xE9, CHR 0x99, CHR 0xA4, CHR 0xE5, CHR 0xAE, CHR 0x8C,
      CHR 0xE4, CHR 0xBA, CHR 0x86]"

definition purge_done_suffix :: string where
  "purge_done_suffix =
     [CHR 0xE5, CHR 0x80, CHR 0x8B, CHR 0xE3, CHR 0x81, CHR 0xAE, CHR 0xE3, CHR 0x83, CHR 0x95,
      CHR 0xE3, CHR 0x82, CHR 0xA1, CHR 0xE3, CHR 0x82, CHR 0xA4, CHR 0xE3, CHR 0x83, CHR 0xAB,
      CHR 0xE3, CHR 0x82, CHR 0x92, CHR 0xE5, CHR 0x89, CHR 0x8A, CHR 0xE9, CHR 0x99, CHR 0xA4,
      CHR 0xE3, CHR 0x81, CHR 0x97, CHR 0xE3, CHR 0x81, CHR 0xBE, CHR 0xE3, CHR 0x81, CHR 0x97,
      CHR 0xE3, CHR 0x81, CHR 0x9F]"

definition clear_title :: string where
  "clear_title =
     [CHR 0xE5, CHR 0xB1, CHR 0xA5, CHR 0xE6, CHR 0xAD, CHR 0xB4, CHR 0xE3, CHR 0x82, CHR 0x92,
      CHR 0xE3, CHR 0x82, CHR 0xAF, CHR 0xE3, CHR 0x83, CHR 0xAA, CHR 0xE3, CHR 0x82, CHR 0xA2]"

definition clear_question :: string where
  "clear_question =
     [CHR 0xE5, CHR 0xAE, CHR 0x9F, CHR 0xE8, CHR 0xA1, CHR 0x8C, CHR 0xE5, CHR 0xB1, CHR 0xA5,
      CHR 0xE6, CHR 0xAD, CHR 0xB4, CHR 0xE3, CHR 0x82, CHR 0x92, CHR 0xE3, CHR 0x82, CHR 0xAF,
      CHR 0xE3, CHR 0x83, CHR 0xAA, CHR 0xE3, CHR 0x82, CHR 0xA2, CHR 0xE3, CHR 0x81, CHR 0x97,
      CHR 0xE3, CHR 0x81, CHR 0xBE, CHR 0xE3, CHR 0x81, CHR 0x99, CHR 0xE3, CHR 0x81, CHR 0x8B,
      CHR 0xEF, CHR 0xBC, CHR 0x9F]"

definition clear_confirm_text :: string where
  "clear_confirm_text =
     [CHR 0xE3, CHR 0x82, CHR 0xAF, CHR 0xE3, CHR 0x83, CHR 0xAA, CHR 0xE3, CHR 0x82, CHR 0xA2]"

definition default_cancel_text :: string where
  "default_cancel_text =
     [CHR 0xE3, CHR 0x82, CHR 0xAD, CHR 0xE3, CHR 0x83, CHR 0xA3, CHR 0xE3, CHR 0x83, CHR 0xB3,
      CHR 0xE3, CHR 0x82, CHR 0xBB, CHR 0xE3, CHR 0x83, CHR 0xAB]"

section \<open>The component's state\<close>

datatype planning_phase = PP_none | PP_generating | PP_review | PP_executing

datatype modal_type = M_info | M_error | M_success | M_warning | M_confirm

text \<open>The closures the component stores in a modal, as the calls they make.\<close>

datatype callback =
    CB_cancelTask string bool bool
  | CB_clear_history
  | CB_nothing

record modal_state =
  m_show :: bool
  m_type :: modal_type
  m_title :: string
  m_message :: string
  onConfirm :: "callback option"
  onCancel :: "callback option"
  onThird :: "callback option"
  confirmText :: "string option"
  cancelText :: "string option"
  thirdText :: "string option"

record client_state =
  selectedWorkspace :: "string option"
  selectedModels :: "string list"
  task :: string
  isExecuting :: bool
  conductorModel :: string
  maxIterations :: real
  maxParallelWorkers :: real
  autonomousProgress :: autonomous_progress
  planningPhase :: planning_phase
  generatedPlan :: "json option"
  planError :: "string option"
  planFeedback :: string
  backgroundTasks :: "BackgroundTask list"
  currentTaskId :: "string option"
  pollingIntervalRef :: "string option"
  showLogModal :: bool
  showTaskList :: bool
  modal :: modal_state
  localStorage :: "string \<rightharpoonup> string"

text \<open>
  \<open>pollingIntervalRef\<close> holds the task the running interval polls (\<open>None\<close>: no
  interval).  The \<^verbatim>\<open>useState\<close> initial values, for a given storage:
\<close>

definition initial_modal :: modal_state where
  "initial_modal =
     \<lparr> m_show = False, m_type = M_info, m_title = [], m_message = [],
       onConfirm = None, onCancel = None, onThird = None,
       confirmText = None, cancelText = None, thirdText = None \<rparr>"

definition initial_client :: "autonomous_progress \<Rightarrow> (string \<rightharpoonup> string) \<Rightarrow> client_state" where
  "initial_client restored storage =
     \<lparr> selectedWorkspace = None, selectedModels = [], task = [], isExecuting = False,
       conductorModel = [], maxIterations = 100, maxParallelWorkers = 10,
       autonomousProgress = restored, planningPhase = PP_none, generatedPlan = None,
       planError = None, planFeedback = [], backgroundTasks = [],
       currentTaskId = storage ''currentTaskId'', pollingIntervalRef = None,
       showLogModal = False, showTaskList = False, modal = initial_modal,
       localStorage = storage \<rparr>"

text \<open>\<^verbatim>\<open>showModal(type, title, message, options)\<close> and \<^verbatim>\<open>closeModal\<close>.\<close>

definition showModal ::
  "modal_type \<Rightarrow> string \<Rightarrow> string \<Rightarrow> callback option \<Rightarrow> callback option \<Rightarrow> callback option \<Rightarrow>
   string option \<Rightarrow> string option \<Rightarrow> string option \<Rightarrow> client_state \<Rightarrow> client_state" where
  "showModal ty title msg on_confirm on_cancel on_third confirm_text cancel_text third_text s =
     s \<lparr> modal := \<lparr> m_show = True, m_type = ty, m_title = title, m_message = msg,
                     onConfirm = on_confirm, onCancel = on_cancel, onThird = on_third,
                     confirmText = confirm_text, cancelText = cancel_text,
                     thirdText = third_text \<rparr> \<rparr>"

definition showModal_plain :: "modal_type \<Rightarrow> string \<Rightarrow> string \<Rightarrow> client_state \<Rightarrow> client_state" where
  "showModal_plain ty title msg s = showModal ty title msg None None None None None None s"

definition closeModal :: "client_state \<Rightarrow> client_state" where
  "closeModal s = s \<lparr> modal := (modal s) \<lparr> m_show := False \<rparr> \<rparr>"

text \<open>
  The footer of the modal: for a confirm modal the third button (when it has a text),
  the cancel button and the confirm button, each with its label and the callback it
  runs after closing; for any other type one OK button.
\<close>

definition modal_buttons :: "modal_state \<Rightarrow> (string \<times> callback option) list" where
  "modal_buttons m =
     (if m_type m = M_confirm
      then (case str_or_undefined (thirdText m) of
              None \<Rightarrow> []
            | Some t \<Rightarrow> [(t, onThird m)])
           @ [(str_or (cancelText m) default_cancel_text, onCancel m),
              (str_or (confirmText m) ''OK'', onConfirm m)]
      else [(''OK'', onConfirm m)])"

text \<open>Decimal digits of a number, as a template string prints it.\<close>

fun show_nat :: "nat \<Rightarrow> string" where
  "show_nat n =
     (if n < 10 then [char_of (48 + n)]
      else show_nat (n div 10) @ [char_of (48 + n mod 10)])"

declare show_nat.simps [simp del]

section \<open>Polling control\<close>

definition stopPolling :: "client_state \<Rightarrow> client_state" where
  "stopPolling s = s \<lparr> pollingIntervalRef := None \<rparr>"

text \<open>
  One run of \<^verbatim>\<open>poll\<close>.  \<open>fetched\<close> is what \<^verbatim>\<open>fetchTaskStatus\<close> returned (\<open>None\<close>
  for its \<^verbatim>\<open>null\<close>) and \<open>ls\<close> what \<^verbatim>\<open>fetchTaskLogs\<close> returned: for a task both
  updaters, then the stop on a terminal status.
\<close>

definition terminal_status :: "task_status \<Rightarrow> bool" where
  "terminal_status st = (st \<in> set [Completed, Stopped, Error, Cancelled])"

definition poll ::
  "(string \<Rightarrow> date) \<Rightarrow> BackgroundTask option \<Rightarrow> TaskLog list \<Rightarrow> client_state \<Rightarrow> client_state" where
  "poll Date_parse fetched ls s =
     (case fetched of
        None \<Rightarrow> s
      | Some t \<Rightarrow>
          let s1 = s \<lparr> autonomousProgress :=
                        poll_logs_update Date_parse ls (poll_update t (autonomousProgress s)) \<rparr>
          in if terminal_status (bt_status t)
             then (stopPolling s1) \<lparr> isExecuting := False, planningPhase := PP_none \<rparr>
             else s1)"

text \<open>
  \<^verbatim>\<open>startPolling(taskId)\<close>: the interval is set for the task and \<^verbatim>\<open>poll\<close> runs at
  once.  \<open>fetched\<close> and \<open>ls\<close> are the answers this first poll gets.  Its writes come
  after the awaited fetch, so after whatever the calling handler still does
  synchronously; a handler with setters after the call is modelled with them applied
  first.
\<close>

definition startPolling ::
  "(string \<Rightarrow> date) \<Rightarrow> BackgroundTask option \<Rightarrow> TaskLog list \<Rightarrow> string \<Rightarrow>
   client_state \<Rightarrow> client_state" where
  "startPolling Date_parse fetched ls taskId s =
     poll Date_parse fetched ls (s \<lparr> pollingIntervalRef := Some taskId \<rparr>)"

section \<open>Starting, cancelling and resuming a task\<close>

text \<open>The guard shared by \<^verbatim>\<open>startBackgroundTask\<close>, \<^verbatim>\<open>handleGeneratePlan\<close> and
  \<^verbatim>\<open>handleAutonomousConductorDirect\<close>.\<close>

definition inputs_missing :: "client_state \<Rightarrow> bool" where
  "inputs_missing s =
     (str_or_undefined (selectedWorkspace s) = None \<or> conductorModel s = []
      \<or> length (selectedModels s) = 0 \<or> trim (task s) = [])"

definition background_requestBody :: "client_state \<Rightarrow> background_request" where
  "background_requestBody s =
     \<lparr> conductor_model_id = conductorModel s,
       worker_model_ids = filter (\<lambda>m. m \<noteq> conductorModel s) (selectedModels s),
       req_task = trim (task s),
       max_iterations = maxIterations s,
       max_tokens = 4000,
       temperature = 0.7,
       max_parallel_workers = maxParallelWorkers s,
       approved_plan = generatedPlan s \<rparr>"

definition direct_requestBody :: "client_state \<Rightarrow> autonomous_request" where
  "direct_requestBody s =
     \<lparr> conductor_model_id = conductorModel s,
       worker_model_ids = filter (\<lambda>m. m \<noteq> conductorModel s) (selectedModels s),
       req_task = trim (task s),
       max_iterations = maxIterations s,
       max_tokens = 4000,
       temperature = 0.7,
       max_parallel_workers = maxParallelWorkers s \<rparr>"

text \<open>The request a handler sends, \<open>None\<close> when it returns before any \<^verbatim>\<open>fetch\<close>.\<close>

definition startBackgroundTask_request :: "client_state \<Rightarrow> background_request option" where
  "startBackgroundTask_request s =
     (if inputs_missing s then None else Some (background_requestBody s))"

text \<open>
  The task id of an answer of the start endpoint for which \<^verbatim>\<open>data.success && data.task_id\<close>
  holds, over the three outcomes of the fetch.
\<close>

definition start_succeeded :: "start_response \<Rightarrow> string option" where
  "start_succeeded d = (if sr_success d then str_or_undefined (sr_task_id d) else None)"

definition started :: "start_response fetch_result \<Rightarrow> string option" where
  "started resp = (case resp of Ok_json d \<Rightarrow> start_succeeded d | _ \<Rightarrow> None)"

text \<open>
  In the three handlers that start a task, \<open>Date_parse\<close>, \<open>fetched\<close> and \<open>ls\<close> are
  for the first poll of \<^verbatim>\<open>startPolling\<close>, and are read only when polling starts.
\<close>

definition startBackgroundTask ::
  "(string \<Rightarrow> date) \<Rightarrow> BackgroundTask option \<Rightarrow> TaskLog list \<Rightarrow>
   start_response fetch_result \<Rightarrow> client_state \<Rightarrow> client_state" where
  "startBackgroundTask Date_parse fetched ls resp s =
     (if inputs_missing s
      then showModal_plain M_warning input_error_title input_error_message s
      else
        let s1 = s \<lparr> isExecuting := True, planningPhase := PP_executing,
                     autonomousProgress := zero_progress \<rparr>;
            failed = (showModal_plain M_error error_title background_start_failed s1)
                       \<lparr> isExecuting := False, planningPhase := PP_none \<rparr>
        in case resp of
             Threw \<Rightarrow> failed
           | Not_ok \<Rightarrow> failed
           | Ok_json d \<Rightarrow>
               (case start_succeeded d of
                  Some tid \<Rightarrow>
                    startPolling Date_parse fetched ls tid (s1 \<lparr> currentTaskId := Some tid \<rparr>)
                | None \<Rightarrow> s1))"

definition handleApprovePlanAndExecute_request :: "client_state \<Rightarrow> background_request option" where
  "handleApprovePlanAndExecute_request s =
     (if \<not> js_truthy (generatedPlan s) then None else Some (background_requestBody s))"

text \<open>\<open>now_iso\<close> is \<^verbatim>\<open>new Date().toISOString()\<close> at the call.\<close>

definition handleApprovePlanAndExecute ::
  "string \<Rightarrow> (string \<Rightarrow> date) \<Rightarrow> BackgroundTask option \<Rightarrow> TaskLog list \<Rightarrow>
   start_response fetch_result \<Rightarrow> client_state \<Rightarrow> client_state" where
  "handleApprovePlanAndExecute now_iso Date_parse fetched ls resp s =
     (if \<not> js_truthy (generatedPlan s) then s
      else
        let s1 = s \<lparr> planningPhase := PP_executing, isExecuting := True,
                     autonomousProgress :=
                       zero_progress \<lparr> ap_task := Some (trim (task s)),
                                       startedAt := Some now_iso \<rparr> \<rparr>;
            failed = (showModal_plain M_error error_title plan_execute_failed s1)
                       \<lparr> isExecuting := False, planningPhase := PP_none \<rparr>
        in case resp of
             Threw \<Rightarrow> failed
           | Not_ok \<Rightarrow> failed
           | Ok_json d \<Rightarrow>
               (case start_succeeded d of
                  Some tid \<Rightarrow>
                    startPolling Date_parse fetched ls tid (s1 \<lparr> currentTaskId := Some tid \<rparr>)
                | None \<Rightarrow> failed))"

definition handleAutonomousConductorDirect_request :: "client_state \<Rightarrow> autonomous_request option" where
  "handleAutonomousConductorDirect_request s =
     (if inputs_missing s then None else Some (direct_requestBody s))"

definition handleAutonomousConductorDirect ::
  "string \<Rightarrow> (string \<Rightarrow> date) \<Rightarrow> BackgroundTask option \<Rightarrow> TaskLog list \<Rightarrow>
   start_response fetch_result \<Rightarrow> client_state \<Rightarrow> client_state" where
  "handleAutonomousConductorDirect now_iso Date_parse fetched ls resp s =
     (if inputs_missing s
      then showModal_plain M_warning input_error_title input_error_message s
      else
        let s1 = s \<lparr> isExecuting := True, planningPhase := PP_executing,
                     autonomousProgress :=
                       zero_progress \<lparr> ap_task := Some (trim (task s)),
                                       startedAt := Some now_iso \<rparr> \<rparr>;
            failed = (showModal_plain M_error error_title direct_execute_failed s1)
                       \<lparr> isExecuting := False, planningPhase := PP_none \<rparr>
        in case resp of
             Threw \<Rightarrow> failed
           | Not_ok \<Rightarrow> failed
           | Ok_json d \<Rightarrow>
               (case start_succeeded d of
                  Some tid \<Rightarrow>
                    startPolling Date_parse fetched ls tid (s1 \<lparr> currentTaskId := Some tid \<rparr>)
                | None \<Rightarrow> failed))"

text \<open>
  \<^verbatim>\<open>cancelTask(taskId, purgeFiles = false, purgeLogs = false)\<close>: an argument left out
  is \<open>None\<close> and takes the default.  The refreshes of the file list and of the task
  list that follow an ok response are fetches of their own; the task list they bring is
  the event \<open>Ev_tasks_fetched\<close> below.
\<close>

definition default_param :: "'a \<Rightarrow> 'a option \<Rightarrow> 'a" where
  "default_param d x = (case x of None \<Rightarrow> d | Some v \<Rightarrow> v)"

definition cancelTask_request :: "bool option \<Rightarrow> bool option \<Rightarrow> cancel_request" where
  "cancelTask_request purgeFiles purgeLogs =
     \<lparr> purge_files = default_param False purgeFiles,
       purge_logs = default_param False purgeLogs \<rparr>"

definition purged_count :: "cancel_response \<Rightarrow> nat" where
  "purged_count d = (case purged_files d of None \<Rightarrow> 0 | Some fs \<Rightarrow> length fs)"

definition cancelTask ::
  "string \<Rightarrow> bool option \<Rightarrow> bool option \<Rightarrow> cancel_response fetch_result \<Rightarrow>
   client_state \<Rightarrow> client_state" where
  "cancelTask taskId purgeFiles purgeLogs resp s =
     (case resp of
        Threw \<Rightarrow> s
      | Not_ok \<Rightarrow> s
      | Ok_json d \<Rightarrow>
          let s1 = (stopPolling s) \<lparr> isExecuting := False, planningPhase := PP_none,
                                    currentTaskId := None \<rparr>;
              s2 = (if default_param False purgeLogs
                    then s1 \<lparr> autonomousProgress :=
                                (autonomousProgress s1) \<lparr> logs := [], filesCreated := [] \<rparr> \<rparr>
                    else s1)
          in if purged_count d > 0
             then showModal_plain M_success purge_done_title
                    (show_nat (purged_count d) @ purge_done_suffix) s2
             else s2)"

definition cancelTaskWithConfirm :: "string \<Rightarrow> client_state \<Rightarrow> client_state" where
  "cancelTaskWithConfirm taskId s =
     showModal M_confirm cancel_title cancel_question
       (Some (CB_cancelTask taskId True True))
       (Some (CB_cancelTask taskId False False))
       (Some CB_nothing)
       (Some cancel_confirm_text) (Some cancel_cancel_text) (Some cancel_third_text) s"

text \<open>
  \<^verbatim>\<open>resumeTask\<close>: only an ok response carrying a task id changes anything, and then
  the current task, the executing flags and the polling are set, the first poll
  included; a rejected promise shows the error modal.
\<close>

definition resumeTask ::
  "(string \<Rightarrow> date) \<Rightarrow> BackgroundTask option \<Rightarrow> TaskLog list \<Rightarrow> string \<Rightarrow>
   resume_response fetch_result \<Rightarrow> client_state \<Rightarrow> client_state" where
  "resumeTask Date_parse fetched ls taskId resp s =
     (case resp of
        Threw \<Rightarrow> showModal_plain M_error error_title resume_failed s
      | Not_ok \<Rightarrow> s
      | Ok_json d \<Rightarrow>
          (case str_or_undefined (rr_task_id d) of
             None \<Rightarrow> s
           | Some tid \<Rightarrow>
               startPolling Date_parse fetched ls tid
                 (s \<lparr> currentTaskId := Some tid, isExecuting := True,
                      planningPhase := PP_executing \<rparr>)))"



text \<open>
  The click handlers of the resume and cancel buttons of the task list.  The resume
  button closes the list right after calling \<^verbatim>\<open>resumeTask\<close>, before any answer.
\<close>

definition click_resume ::
  "(string \<Rightarrow> date) \<Rightarrow> BackgroundTask option \<Rightarrow> TaskLog list \<Rightarrow> BackgroundTask \<Rightarrow>
   resume_response fetch_result \<Rightarrow> client_state \<Rightarrow> client_state" where
  "click_resume Date_parse fetched ls t resp s =
     resumeTask Date_parse fetched ls (bt_id t) resp (s \<lparr> showTaskList := False \<rparr>)"

definition click_cancel ::
  "BackgroundTask \<Rightarrow> cancel_response fetch_result \<Rightarrow> client_state \<Rightarrow> client_state" where
  "click_cancel t resp s = cancelTask (bt_id t) None None resp s"

text \<open>
  The show-progress button of a running task in the task list: the task becomes the
  current one, its models are put back into the form, its worker figures into the
  progress record, the list is closed and the executing flags are set; the first poll
  of the \<^verbatim>\<open>startPolling\<close> it calls comes after all of these.
\<close>

definition click_show_progress ::
  "(string \<Rightarrow> date) \<Rightarrow> BackgroundTask option \<Rightarrow> TaskLog list \<Rightarrow> BackgroundTask \<Rightarrow>
   client_state \<Rightarrow> client_state" where
  "click_show_progress Date_parse fetched ls t s =
     (let s1 = s \<lparr> currentTaskId := Some (bt_id t) \<rparr>;
          s2 = (case str_or_undefined (conductor_model t) of
                  None \<Rightarrow> s1
                | Some m \<Rightarrow> s1 \<lparr> conductorModel := m \<rparr>);
          s3 = (case worker_models t of
                  None \<Rightarrow> s2
                | Some ms \<Rightarrow> s2 \<lparr> selectedModels := ms \<rparr>);
          s4 = s3 \<lparr> autonomousProgress :=
                       (autonomousProgress s3)
                         \<lparr> workerCount := Some (num_or (worker_count t) 0),
                           ap_maxParallelWorkers := Some (num_or (bt_max_parallel_workers t) 0),
                           activeWorkers := Some (num_or (active_workers t) 0) \<rparr> \<rparr>
      in startPolling Date_parse fetched ls (bt_id t)
           (s4 \<lparr> showTaskList := False, isExecuting := True, planningPhase := PP_executing \<rparr>))"

text \<open>
  The effect that runs once after mounting, for the answer \<open>status\<close> of the status
  endpoint: a current task that is running is polled (\<open>fetched\<close> and \<open>ls\<close> are for
  the first poll); one that is not running has its record copied into the progress
  record, with an empty log list.
\<close>

definition mount_effect ::
  "(string \<Rightarrow> date) \<Rightarrow> BackgroundTask option \<Rightarrow> TaskLog list \<Rightarrow> BackgroundTask option \<Rightarrow>
   client_state \<Rightarrow> client_state" where
  "mount_effect Date_parse fetched ls status s =
     (case str_or_undefined (currentTaskId s) of
        None \<Rightarrow> s
      | Some tid \<Rightarrow>
          (case status of
             None \<Rightarrow> s
           | Some t \<Rightarrow>
               if bt_status t = Running
               then startPolling Date_parse fetched ls tid
                      (s \<lparr> isExecuting := True, planningPhase := PP_executing \<rparr>)
               else s \<lparr> autonomousProgress :=
                         zero_progress
                           \<lparr> iteration := bt_iteration t,
                             progress := bt_progress t,
                             analysis := bt_analysis t,
                             filesCreated := files_created t,
                             isComplete := is_complete t,
                             logs := [],
                             currentPhase := str_or_undefined (current_phase t),
                             currentPhaseName := str_or_undefined (current_phase_name t),
                             currentPhaseId := num_or_undefined (current_phase_id t),
                             totalPhases := num_or_undefined (total_phases t),
                             phases := bt_phases t \<rparr> \<rparr>))"

section \<open>Clearing the history\<close>

text \<open>The confirm callback of the clear-history button of the log modal.\<close>

definition clear_history :: "client_state \<Rightarrow> client_state" where
  "clear_history s =
     s \<lparr> autonomousProgress := zero_progress,
         localStorage := (localStorage s) (''autonomousProgress'' := None),
         showLogModal := False \<rparr>"

definition click_clear_history :: "client_state \<Rightarrow> client_state" where
  "click_clear_history s =
     showModal M_confirm clear_title clear_question (Some CB_clear_history) None None
       (Some clear_confirm_text) (Some default_cancel_text) None s"

text \<open>
  A click on a button of the modal: \<^verbatim>\<open>closeModal()\<close>, then the callback if there is
  one.  \<open>resp\<close> is the answer of the cancel endpoint, read only by a cancel callback.
\<close>

fun run_callback :: "callback \<Rightarrow> cancel_response fetch_result \<Rightarrow> client_state \<Rightarrow> client_state" where
  "run_callback (CB_cancelTask taskId pf pl) resp s = cancelTask taskId (Some pf) (Some pl) resp s"
| "run_callback CB_clear_history resp s = clear_history s"
| "run_callback CB_nothing resp s = s"

definition click_modal_button ::
  "callback option \<Rightarrow> cancel_response fetch_result \<Rightarrow> client_state \<Rightarrow> client_state" where
  "click_modal_button cb resp s =
     (case cb of None \<Rightarrow> closeModal s | Some c \<Rightarrow> run_callback c resp (closeModal s))"

section \<open>Plan generation\<close>

text \<open>\<^verbatim>\<open>feedback || planFeedback || undefined\<close>.\<close>

definition feedbackToSend :: "string option \<Rightarrow> client_state \<Rightarrow> string option" where
  "feedbackToSend fb s = str_or_undefined (Some (str_or fb (planFeedback s)))"

text \<open>
  \<^verbatim>\<open>previousPlanCopy\<close>: built only under \<^verbatim>\<open>feedbackToSend && generatedPlan\<close>, and
  \<^verbatim>\<open>undefined\<close> again when the copy throws, which the \<^verbatim>\<open>catch\<close> turns into going on
  without the previous plan.
\<close>

definition previousPlanCopy :: "string option \<Rightarrow> client_state \<Rightarrow> json option" where
  "previousPlanCopy fb s =
     (case feedbackToSend fb s of
        None \<Rightarrow> None
      | Some f \<Rightarrow>
          (case generatedPlan s of
             None \<Rightarrow> None
           | Some p \<Rightarrow> if truthy p then copy_plan p else None))"

text \<open>
  \<^verbatim>\<open>requestBody\<close>: the seven common fields, then \<^verbatim>\<open>feedback\<close> only when there is
  feedback to send and \<^verbatim>\<open>previous_plan\<close> only when moreover the copy exists; a key
  that is not set is \<open>None\<close>.
\<close>

definition plan_requestBody :: "string option \<Rightarrow> client_state \<Rightarrow> plan_request" where
  "plan_requestBody fb s =
     \<lparr> conductor_model_id = conductorModel s,
       worker_model_ids = filter (\<lambda>m. m \<noteq> conductorModel s) (selectedModels s),
       req_task = trim (task s),
       max_iterations = maxIterations s,
       max_tokens = 4000,
       temperature = 0.7,
       max_parallel_workers = maxParallelWorkers s,
       feedback = feedbackToSend fb s,
       previous_plan =
         (case feedbackToSend fb s of None \<Rightarrow> None | Some f \<Rightarrow> previousPlanCopy fb s) \<rparr>"

definition handleGeneratePlan_request :: "string option \<Rightarrow> client_state \<Rightarrow> plan_request option" where
  "handleGeneratePlan_request fb s =
     (if inputs_missing s then None else Some (plan_requestBody fb s))"

definition handleGeneratePlan ::
  "string option \<Rightarrow> plan_response fetch_result \<Rightarrow> client_state \<Rightarrow> client_state" where
  "handleGeneratePlan fb resp s =
     (if inputs_missing s
      then showModal_plain M_warning input_error_title input_error_message s
      else
        let s1 = s \<lparr> planningPhase := PP_generating, generatedPlan := None,
                     planError := None \<rparr>;
            thrown = s1 \<lparr> planError := Some plan_exception_message,
                          planningPhase := PP_none \<rparr>
        in case resp of
             Threw \<Rightarrow> thrown
           | Not_ok \<Rightarrow> thrown
           | Ok_json d \<Rightarrow>
               if success d \<and> js_truthy (pr_plan d)
               then s1 \<lparr> generatedPlan := pr_plan d, planningPhase := PP_review,
                         planFeedback := [] \<rparr>
               else s1 \<lparr> planError :=
                           Some (plan_failed_prefix @ str_or (raw_output d) ''Unknown error''),
                         planningPhase := PP_none \<rparr>)"

text \<open>The cancel button of the plan review.\<close>

definition discard_plan :: "client_state \<Rightarrow> client_state" where
  "discard_plan s = s \<lparr> planningPhase := PP_none, generatedPlan := None, planFeedback := [] \<rparr>"

section \<open>The worker limit\<close>

text \<open>
  The value of a number input is sanitised by the browser: the empty string, or a
  valid floating-point number.  \<^verbatim>\<open>Number('')\<close> is 0.
\<close>

datatype field_value = Empty_field | Number_field real

definition Number :: "field_value \<Rightarrow> real" where
  "Number v = (case v of Empty_field \<Rightarrow> 0 | Number_field r \<Rightarrow> r)"

text \<open>The \<^verbatim>\<open>onChange\<close> handlers of the two number inputs of the autonomous mode.\<close>

definition onChange_maxParallelWorkers :: "field_value \<Rightarrow> client_state \<Rightarrow> client_state" where
  "onChange_maxParallelWorkers v s = s \<lparr> maxParallelWorkers := min 50 (max 1 (Number v)) \<rparr>"

definition onChange_maxIterations :: "field_value \<Rightarrow> client_state \<Rightarrow> client_state" where
  "onChange_maxIterations v s = s \<lparr> maxIterations := Number v \<rparr>"

section \<open>The component as a transition system\<close>

text \<open>
  What can happen to the component: the user edits an input, presses a button, or an
  awaited answer of the server arrives.  Each event carries what the handler reads from
  outside the state; \<open>first_poll\<close> holds the answers for the first poll of a handler
  that may start polling.
\<close>

record first_poll =
  fp_Date_parse :: "string \<Rightarrow> date"
  fp_fetched :: "BackgroundTask option"
  fp_logs :: "TaskLog list"

datatype client_event =
    Ev_select_workspace "string option"
  | Ev_select_models "string list"
  | Ev_edit_task string
  | Ev_select_conductor string
  | Ev_edit_planFeedback string
  | Ev_edit_maxIterations field_value
  | Ev_edit_maxParallelWorkers field_value
  | Ev_generate_plan "plan_response fetch_result"
  | Ev_discard_plan
  | Ev_start_background first_poll "start_response fetch_result"
  | Ev_approve_plan string first_poll "start_response fetch_result"
  | Ev_cancel_with_confirm string
  | Ev_click_confirm "cancel_response fetch_result"
  | Ev_click_cancel "cancel_response fetch_result"
  | Ev_click_third "cancel_response fetch_result"
  | Ev_list_cancel BackgroundTask "cancel_response fetch_result"
  | Ev_list_resume first_poll BackgroundTask "resume_response fetch_result"
  | Ev_list_show_progress first_poll BackgroundTask
  | Ev_mounted first_poll "BackgroundTask option"
  | Ev_clear_history
  | Ev_poll "string \<Rightarrow> date" "BackgroundTask option" "TaskLog list"
  | Ev_tasks_fetched "BackgroundTask list"

fun step :: "client_state \<Rightarrow> client_event \<Rightarrow> client_state" where
  "step s (Ev_select_workspace w) = s \<lparr> selectedWorkspace := w \<rparr>"
| "step s (Ev_select_models ms) = s \<lparr> selectedModels := ms \<rparr>"
| "step s (Ev_edit_task t) = s \<lparr> task := t \<rparr>"
| "step s (Ev_select_conductor m) = s \<lparr> conductorModel := m \<rparr>"
| "step s (Ev_edit_planFeedback f) = s \<lparr> planFeedback := f \<rparr>"
| "step s (Ev_edit_maxIterations v) = onChange_maxIterations v s"
| "step s (Ev_edit_maxParallelWorkers v) = onChange_maxParallelWorkers v s"
| "step s (Ev_generate_plan resp) = handleGeneratePlan None resp s"
| "step s Ev_discard_plan = discard_plan s"
| "step s (Ev_start_background fp resp) =
     startBackgroundTask (fp_Date_parse fp) (fp_fetched fp) (fp_logs fp) resp s"
| "step s (Ev_approve_plan now_iso fp resp) =
     handleApprovePlanAndExecute now_iso (fp_Date_parse fp) (fp_fetched fp) (fp_logs fp) resp s"
| "step s (Ev_cancel_with_confirm taskId) = cancelTaskWithConfirm taskId s"
| "step s (Ev_click_confirm resp) = click_modal_button (onConfirm (modal s)) resp s"
| "step s (Ev_click_cancel resp) = click_modal_button (onCancel (modal s)) resp s"
| "step s (Ev_click_third resp) = click_modal_button (onThird (modal s)) resp s"
| "step s (Ev_list_cancel t resp) = click_cancel t resp s"
| "step s (Ev_list_resume fp t resp) =
     click_resume (fp_Date_parse fp) (fp_fetched fp) (fp_logs fp) t resp s"
| "step s (Ev_list_show_progress fp t) =
     click_show_progress (fp_Date_parse fp) (fp_fetched fp) (fp_logs fp) t s"
| "step s (Ev_mounted fp status) =
     mount_effect (fp_Date_parse fp) (fp_fetched fp) (fp_logs fp) status s"
| "step s Ev_clear_history = click_clear_history s"
| "step s (Ev_poll Date_parse fetched ls) = poll Date_parse fetched ls s"
| "step s (Ev_tasks_fetched ts) = s \<lparr> backgroundTasks := ts \<rparr>"

definition run :: "client_state \<Rightarrow> client_event list \<Rightarrow> client_state" where
  "run s evs = foldl step s evs"

section \<open>Saving and restoring the progress record\<close>

text \<open>
  The two directions between a JSON text and its value, \<^verbatim>\<open>JSON.stringify\<close> and
  \<^verbatim>\<open>JSON.parse\<close>, belong to the JavaScript runtime and are parameters below (\<open>parse\<close>
  gives \<open>None\<close> where \<^verbatim>\<open>JSON.parse\<close> throws), and so are
  \<^verbatim>\<open>Date.prototype.toISOString\<close> and the \<^verbatim>\<open>Date\<close> constructor on a string.  A
  \<^verbatim>\<open>Date\<close> is written as the string its \<^verbatim>\<open>toJSON\<close> gives, which is
  \<^verbatim>\<open>toISOString()\<close>.
\<close>

definition log_toJSON :: "(date \<Rightarrow> string) \<Rightarrow> log_entry \<Rightarrow> json" where
  "log_toJSON toISOString l =
     object_of [(''type'', Some (JStr (log_type l))),
                (''message'', Some (JStr (message l))),
                (''timestamp'', Some (JStr (toISOString (timestamp l))))]"

definition phase_toJSON :: "phase_summary \<Rightarrow> json" where
  "phase_toJSON ph =
     object_of [(''phase_id'', Some (JNum (ps_phase_id ph))),
                (''name'', Some (JStr (ps_name ph))),
                (''description'', Some (JStr (ps_description ph)))]"

definition progress_toJSON :: "(date \<Rightarrow> string) \<Rightarrow> autonomous_progress \<Rightarrow> json" where
  "progress_toJSON toISOString p =
     object_of
       [(''iteration'', Some (JNum (iteration p))),
        (''progress'', Some (JNum (progress p))),
        (''analysis'', Some (JStr (analysis p))),
        (''filesCreated'', Some (JArr (map JStr (filesCreated p)))),
        (''isComplete'', Some (JBool (isComplete p))),
        (''logs'', Some (JArr (map (log_toJSON toISOString) (logs p)))),
        (''currentPhase'', map_option JStr (currentPhase p)),
        (''currentPhaseName'', map_option JStr (currentPhaseName p)),
        (''currentPhaseId'', map_option JNum (currentPhaseId p)),
        (''totalPhases'', map_option JNum (totalPhases p)),
        (''phases'', map_option (\<lambda>phs. JArr (map phase_toJSON phs)) (phases p)),
        (''task'', map_option JStr (ap_task p)),
        (''startedAt'', map_option JStr (startedAt p)),
        (''workerCount'', map_option JNum (workerCount p)),
        (''maxParallelWorkers'', map_option JNum (ap_maxParallelWorkers p)),
        (''activeWorkers'', map_option JNum (activeWorkers p))]"

text \<open>
  The effect that runs after every change of \<^verbatim>\<open>autonomousProgress\<close>: the record is
  written under the key \<^verbatim>\<open>autonomousProgress\<close> when it has a log entry or its iteration
  is positive, and the storage is left alone otherwise.
\<close>

definition save_progress ::
  "(json \<Rightarrow> string) \<Rightarrow> (date \<Rightarrow> string) \<Rightarrow> client_state \<Rightarrow> client_state" where
  "save_progress stringify toISOString s =
     (if length (logs (autonomousProgress s)) > 0 \<or> iteration (autonomousProgress s) > 0
      then s \<lparr> localStorage :=
                 (localStorage s) (''autonomousProgress'' \<mapsto>
                    stringify (progress_toJSON toISOString (autonomousProgress s))) \<rparr>
      else s)"

text \<open>
  Reading a parsed value at the type of the state.  The source returns \<^verbatim>\<open>parsed\<close> as
  it is and TypeScript takes it for the state; \<open>progress_of\<close> reads each property at its
  declared type and gives \<open>None\<close> when the value does not have that shape.  A timestamp
  is read through \<open>Date_parse\<close>, which is the \<^verbatim>\<open>new Date(log.timestamp)\<close> of the
  revival.
\<close>

definition log_of :: "(string \<Rightarrow> date) \<Rightarrow> json \<Rightarrow> log_entry option" where
  "log_of Date_parse j =
     (case j of
        JObj fs \<Rightarrow>
          do { ty \<leftarrow> required as_str fs ''type'';
               msg \<leftarrow> required as_str fs ''message'';
               ts \<leftarrow> required as_str fs ''timestamp'';
               Some \<lparr> log_type = ty, message = msg, timestamp = Date_parse ts \<rparr> }
      | _ \<Rightarrow> None)"

definition phase_of :: "json \<Rightarrow> phase_summary option" where
  "phase_of j =
     (case j of
        JObj fs \<Rightarrow>
          do { i \<leftarrow> required as_num fs ''phase_id'';
               n \<leftarrow> required as_str fs ''name'';
               d \<leftarrow> required as_str fs ''description'';
               Some \<lparr> ps_phase_id = i, ps_name = n, ps_description = d \<rparr> }
      | _ \<Rightarrow> None)"

definition progress_of :: "(string \<Rightarrow> date) \<Rightarrow> json \<Rightarrow> autonomous_progress option" where
  "progress_of Date_parse j =
     (case j of
        JObj fs \<Rightarrow>
          do { it \<leftarrow> required as_num fs ''iteration'';
               pr \<leftarrow> required as_num fs ''progress'';
               an \<leftarrow> required as_str fs ''analysis'';
               fc \<leftarrow> required (as_list as_str) fs ''filesCreated'';
               ic \<leftarrow> required as_bool fs ''isComplete'';
               lg \<leftarrow> required (as_list (log_of Date_parse)) fs ''logs'';
               cp \<leftarrow> optional as_str fs ''currentPhase'';
               cn \<leftarrow> optional as_str fs ''currentPhaseName'';
               ci \<leftarrow> optional as_num fs ''currentPhaseId'';
               tp \<leftarrow> optional as_num fs ''totalPhases'';
               ph \<leftarrow> optional (as_list phase_of) fs ''phases'';
               tk \<leftarrow> optional as_str fs ''task'';
               sa \<leftarrow> optional as_str fs ''startedAt'';
               wc \<leftarrow> optional as_num fs ''workerCount'';
               mp \<leftarrow> optional as_num fs ''maxParallelWorkers'';
               aw \<leftarrow> optional as_num fs ''activeWorkers'';
               Some \<lparr> iteration = it, progress = pr, analysis = an, filesCreated = fc,
                      isComplete = ic, logs = lg, currentPhase = cp, currentPhaseName = cn,
                      currentPhaseId = ci, totalPhases = tp, phases = ph, ap_task = tk,
                      startedAt = sa, workerCount = wc, ap_maxParallelWorkers = mp,
                      activeWorkers = aw \<rparr> }
      | _ \<Rightarrow> None)"

text \<open>
  Where the revival \<^verbatim>\<open>if (parsed.logs) { parsed.logs = parsed.logs.map(...) }\<close> throws
  a TypeError: \<^verbatim>\<open>parsed\<close> is null; or \<^verbatim>\<open>parsed.logs\<close> is truthy and not an array, so
  has no \<^verbatim>\<open>map\<close>; or an element of the array is null, so has no \<^verbatim>\<open>timestamp\<close>.
\<close>

definition revival_throws :: "json \<Rightarrow> bool" where
  "revival_throws parsed =
     (case parsed of
        JNull \<Rightarrow> True
      | JObj fs \<Rightarrow>
          (case map_of fs ''logs'' of
             None \<Rightarrow> False
           | Some (JArr ls) \<Rightarrow> JNull \<in> set ls
           | Some v \<Rightarrow> truthy v)
      | _ \<Rightarrow> False)"

text \<open>
  The initialiser of the state cell.  \<open>window\<close> is \<open>None\<close> where there is no
  \<^verbatim>\<open>window\<close>, else the storage.  Every exception inside the \<^verbatim>\<open>try\<close> is swallowed and
  ends at the initial record.  A parsed value that is returned but does not have the
  shape of the state is \<open>Unvalidated\<close>.
\<close>

datatype restored = Restored autonomous_progress | Unvalidated json

definition restore_progress ::
  "(string \<Rightarrow> json option) \<Rightarrow> (string \<Rightarrow> date) \<Rightarrow> (string \<rightharpoonup> string) option \<Rightarrow> restored" where
  "restore_progress parse Date_parse window =
     (case window of
        None \<Rightarrow> Restored initial_progress
      | Some storage \<Rightarrow>
          (case str_or_undefined (storage ''autonomousProgress'') of
             None \<Rightarrow> Restored initial_progress
           | Some saved \<Rightarrow>
               (case parse saved of
                  None \<Rightarrow> Restored initial_progress
                | Some parsed \<Rightarrow>
                    if revival_throws parsed then Restored initial_progress
                    else (case progress_of Date_parse parsed of
                            Some p \<Rightarrow> Restored p
                          | None \<Rightarrow> Unvalidated parsed))))"

section \<open>Sample values\<close>

text \<open>A running task as the status endpoint reports it, a small plan, and a component
  state in which the user has filled in the autonomous form, a plan is under review and
  an earlier run has left progress behind.\<close>

definition sample_task :: BackgroundTask where
  "sample_task =
     \<lparr> bt_id = ''task-1'', bt_workspace = ''demo'', bt_task = ''build a parser'',
       bt_status = Running, bt_created_at = ''2025-01-01T00:00:00'',
       bt_started_at = Some ''2025-01-01T00:00:01'', bt_completed_at = None,
       bt_iteration = 3, bt_progress = 60, bt_analysis = ''lexer done'',
       files_created = [''lexer.py''], current_phase = None, current_phase_name = None,
       current_phase_id = None, total_phases = None, bt_phases = None,
       is_complete = False, bt_error = None, conductor_model = Some ''conductor'',
       worker_models = Some [''worker-a'', ''worker-b''], worker_count = Some 2,
       bt_max_parallel_workers = Some 10, active_workers = Some 0 \<rparr>"

definition sample_plan :: plan where
  "sample_plan =
     \<lparr> project_name = ''parser'', p_description = ''a small parser'',
       architecture = ''two modules'',
       p_phases =
         [\<lparr> ph_phase_id = 1, ph_name = ''core'', ph_description = ''lexer and parser'',
            ph_estimated_iterations = 2,
            files_to_create =
              [\<lparr> f_path = ''lexer.py'', f_description = ''tokens'', f_dependencies = [],
                 f_can_parallelize = True \<rparr>,
               \<lparr> f_path = ''parser.py'', f_description = ''grammar'',
                 f_dependencies = [''lexer.py''], f_can_parallelize = False \<rparr>],
            ph_completion_criteria = ''both files exist'' \<rparr>],
       final_structure = [''lexer.py'', ''parser.py''],
       p_completion_criteria = ''tests pass'',
       risks = [''ambiguous grammar''] \<rparr>"



definition sample_progress :: autonomous_progress where
  "sample_progress =
     zero_progress \<lparr> iteration := 2, progress := 50, analysis := ''lexer started'',
                     filesCreated := [''lexer.py''],
                     logs := [\<lparr> log_type = ''info'', message = ''started'',
                               timestamp = 0 \<rparr>] \<rparr>"

definition sample_client :: client_state where
  "sample_client =
     (initial_client sample_progress Map.empty)
       \<lparr> selectedWorkspace := Some ''demo'',
         selectedModels := [''conductor'', ''worker-a'', ''worker-b''],
         task := '' build a parser '',
         conductorModel := ''conductor'',
         planningPhase := PP_review,
         generatedPlan := Some (plan_toJSON sample_plan),
         planFeedback := ''add tests'',
         backgroundTasks := [sample_task] \<rparr>"

text \<open>
  A runtime for the sample state: the JSON text of the sample progress record, written
  and read back, and the ISO form of the epoch.
\<close>

definition sample_iso :: string where
  "sample_iso = ''1970-01-01T00:00:00.000Z''"

definition sample_toISOString :: "date \<Rightarrow> string" where
  "sample_toISOString t = (if t = 0 then sample_iso else ''2025-01-01T00:00:00.000Z'')"

definition sample_Date_parse :: "string \<Rightarrow> date" where
  "sample_Date_parse s = (if s = sample_iso then 0 else 1735689600000)"

definition sample_text :: string where
  "sample_text = ''{'' @ concat
     [[CHR 0x22], ''iteration'', [CHR 0x22], '':2,'',
      [CHR 0x22], ''progress'', [CHR 0x22], '':50,'',
      [CHR 0x22], ''analysis'', [CHR 0x22], '':'', [CHR 0x22], ''lexer started'', [CHR 0x22], '','',
      [CHR 0x22], ''filesCreated'', [CHR 0x22], '':['', [CHR 0x22], ''lexer.py'', [CHR 0x22], ''],'',
      [CHR 0x22], ''isComplete'', [CHR 0x22], '':false,'',
      [CHR 0x22], ''logs'', [CHR 0x22], '':[{'',
      [CHR 0x22], ''type'', [CHR 0x22], '':'', [CHR 0x22], ''info'', [CHR 0x22], '','',
      [CHR 0x22], ''message'', [CHR 0x22], '':'', [CHR 0x22], ''started'', [CHR 0x22], '','',
      [CHR 0x22], ''timestamp'', [CHR 0x22], '':'', [CHR 0x22], sample_iso, [CHR 0x22],
      ''}]}'']"

definition sample_stringify :: "json \<Rightarrow> string" where
  "sample_stringify j =
     (if j = progress_toJSON sample_toISOString sample_progress then sample_text else ''null'')"

definition sample_parse :: "string \<Rightarrow> json option" where
  "sample_parse t =
     (if t = sample_text then Some (progress_toJSON sample_toISOString sample_progress)
      else if t = ''null'' then Some JNull
      else None)"

section \<open>Properties\<close>

lemma Set_add_distinct: "distinct acc \<Longrightarrow> distinct (Set_add acc x)"
  by (simp add: Set_add_def)

lemma Set_add_set: "set (Set_add acc x) = insert x (set acc)"
  by (auto simp: Set_add_def)

lemma foldl_Set_add_distinct: "distinct acc \<Longrightarrow> distinct (foldl Set_add acc xs)"
  by (induction xs arbitrary: acc) (simp_all add: Set_add_distinct)

lemma foldl_Set_add_set: "set (foldl Set_add acc xs) = set acc \<union> set xs"
  by (induction xs arbitrary: acc) (simp_all add: Set_add_set)

lemma foldl_Set_add_keep:
  "distinct ys \<Longrightarrow> set ys \<inter> set acc = {} \<Longrightarrow> foldl Set_add acc ys = acc @ ys"
proof (induction ys arbitrary: acc)
  case Nil
  then show ?case by simp
next
  case (Cons y ys)
  from Cons.prems have fresh: "y \<notin> set acc" by auto
  from Cons.prems have "set ys \<inter> set (acc @ [y]) = {}" by auto
  with Cons.prems Cons.IH [of "acc @ [y]"] fresh show ?case
    by (simp add: Set_add_def)
qed

lemma new_Set_distinct: "distinct (new_Set xs)"
  by (simp add: new_Set_def foldl_Set_add_distinct)

lemma new_Set_set: "set (new_Set xs) = set xs"
  by (simp add: new_Set_def foldl_Set_add_set)

lemma new_Set_id: "distinct xs \<Longrightarrow> new_Set xs = xs"
  using foldl_Set_add_keep [of xs "[]"] by (simp add: new_Set_def)

lemma new_Set_snoc: "new_Set (xs @ [x]) = Set_add (new_Set xs) x"
  by (simp add: new_Set_def)

subsection \<open>The created files form a set\<close>

lemma process_event_filesCreated_distinct:
  "distinct (filesCreated prev) \<Longrightarrow> distinct (filesCreated (process_event now text ev prev))"
  by (cases ev) (simp_all add: addLog_def decision_update_def file_created_update_def new_Set_distinct)

lemma process_events_filesCreated_distinct:
  "distinct (filesCreated prev) \<Longrightarrow> distinct (filesCreated (process_events evs prev))"
proof (induction evs arbitrary: prev)
  case Nil
  then show ?case by simp
next
  case (Cons e evs)
  obtain now msg ev where e: "e = (now, msg, ev)" by (cases e)
  from Cons.prems have "distinct (filesCreated (process_event now msg ev prev))"
    by (rule process_event_filesCreated_distinct)
  then show ?case using Cons.IH e by simp
qed

lemma file_created_filesCreated:
  "filesCreated (process_event now text (E_file_created path par) prev) =
     new_Set (filesCreated prev @ [path])"
  by (simp add: addLog_def file_created_update_def)

text \<open>
  Claim C1.  A \<^verbatim>\<open>'file_created'\<close> event makes \<open>filesCreated\<close> the set union of
  the previous list and the event's path: the new list is the insertion-ordered Set of
  the previous list followed by the path, it holds exactly the previous paths and the
  new one, and it has no duplicates.  On a list without duplicates (which is every list
  the stream produces from the empty list of a fresh task) a path already present
  leaves the list as it is and a new path is appended once, at the end.
\<close>

theorem file_created_set_union:
  "filesCreated (process_event now text (E_file_created path par) prev)
     = new_Set (filesCreated prev @ [path])
   \<and> set (filesCreated (process_event now text (E_file_created path par) prev))
       = set (filesCreated prev) \<union> {path}
   \<and> distinct (filesCreated (process_event now text (E_file_created path par) prev))
   \<and> (distinct (filesCreated prev) \<longrightarrow>
        filesCreated (process_event now text (E_file_created path par) prev)
          = (if path \<in> set (filesCreated prev) then filesCreated prev
             else filesCreated prev @ [path]))
   \<and> distinct (filesCreated (process_events evs zero_progress))
   \<and> filesCreated (process_event now text (E_file_created path par)
                      (process_events evs zero_progress))
       = (if path \<in> set (filesCreated (process_events evs zero_progress))
          then filesCreated (process_events evs zero_progress)
          else filesCreated (process_events evs zero_progress) @ [path])"
proof -
  have reach: "distinct (filesCreated (process_events evs zero_progress))"
    by (rule process_events_filesCreated_distinct) (simp add: zero_progress_def)
  have step: "distinct xs \<Longrightarrow>
      new_Set (xs @ [path]) = (if path \<in> set xs then xs else xs @ [path])" for xs
    by (simp add: new_Set_snoc new_Set_id Set_add_def)
  show ?thesis
    unfolding file_created_filesCreated
    using reach step [of "filesCreated prev"] step [OF reach]
    by (simp add: new_Set_set new_Set_distinct)
qed

text \<open>The same at a concrete list, once with a path already present, once with a new one.\<close>

theorem file_created_set_union_witness:
  "distinct (filesCreated (zero_progress \<lparr> filesCreated := [''a.py'', ''b.py''] \<rparr>))
   \<and> filesCreated (process_event 7 ''m'' (E_file_created ''a.py'' False)
        (zero_progress \<lparr> filesCreated := [''a.py'', ''b.py''] \<rparr>)) = [''a.py'', ''b.py'']
   \<and> filesCreated (process_event 7 ''m'' (E_file_created ''c.py'' True)
        (zero_progress \<lparr> filesCreated := [''a.py'', ''b.py''] \<rparr>)) = [''a.py'', ''b.py'', ''c.py'']"
  using file_created_set_union [of 7 "''m''" "''a.py''" False
          "zero_progress \<lparr> filesCreated := [''a.py'', ''b.py''] \<rparr>" "[]"]
        file_created_set_union [of 7 "''m''" "''c.py''" True
          "zero_progress \<lparr> filesCreated := [''a.py'', ''b.py''] \<rparr>" "[]"]
  by (simp add: addLog_def file_created_update_def new_Set_def Set_add_def)

subsection \<open>Reading back what was written\<close>

lemma those_map_inverse:
  "(\<And>x. x \<in> set xs \<Longrightarrow> f (g x) = Some x) \<Longrightarrow> those (map (\<lambda>x. f (g x)) xs) = Some xs"
  by (induction xs) simp_all

lemma map_of_members:
  "distinct (map fst kvs) \<Longrightarrow>
   map_of (members kvs) k = (case map_of kvs k of None \<Rightarrow> None | Some v \<Rightarrow> v)"
proof (induction kvs)
  case Nil
  then show ?case by (simp add: members_def)
next
  case (Cons kv kvs)
  obtain k' v' where kv: "kv = (k', v')" by (cases kv)
  from Cons.prems kv have notin: "k' \<notin> fst ` set kvs" and d: "distinct (map fst kvs)"
    by auto
  have absent: "map_of kvs k' = None"
    using notin by (simp add: map_of_eq_None_iff)
  show ?case
    using Cons.IH [OF d] absent
    by (cases v') (auto simp: kv members_def)
qed

lemma as_list_JArr_map:
  "(\<And>x. x \<in> set xs \<Longrightarrow> f (g x) = Some x) \<Longrightarrow> as_list f (JArr (map g xs)) = Some xs"
  by (simp add: as_list_def comp_def those_map_inverse)

lemma case_option_Some_Some:
  "(\<And>y. h y = Some (Some y)) \<Longrightarrow> (case x of None \<Rightarrow> Some None | Some y \<Rightarrow> h y) = Some x"
  by (cases x) simp_all








subsection \<open>The sample state passes the input guard\<close>

lemma sample_trim: "trim '' build a parser '' = ''build a parser''"
  by code_simp

lemma sample_inputs_present: "\<not> inputs_missing sample_client"
  by (simp add: inputs_missing_def sample_client_def initial_client_def str_or_undefined_def
        sample_trim)

lemma sample_plan_present: "js_truthy (generatedPlan sample_client)"
  by (simp add: sample_client_def js_truthy_def plan_toJSON_def object_of_def)

subsection \<open>Progress follows the reports\<close>

lemma poll_progress:
  "progress (autonomousProgress (poll Date_parse (Some t) ls s)) = bt_progress t"
  by (simp add: poll_def poll_update_def poll_logs_update_def stopPolling_def Let_def)

lemma poll_None: "poll Date_parse None ls s = s"
  by (simp add: poll_def)

lemma poll_progress_cases:
  "progress (autonomousProgress (poll Date_parse fetched ls s))
     = (case fetched of None \<Rightarrow> progress (autonomousProgress s) | Some t \<Rightarrow> bt_progress t)"
  by (cases fetched) (simp_all add: poll_None poll_progress)

lemma decision_progress:
  "progress (process_event now msg (E_decision p a) prev) = num_or p 0"
  by (simp add: addLog_def decision_update_def)

lemma startBackgroundTask_progress:
  "\<not> inputs_missing s \<Longrightarrow>
     progress (autonomousProgress (startBackgroundTask Date_parse fetched ls resp s))
       = (case started resp of
            None \<Rightarrow> 0
          | Some tid \<Rightarrow> (case fetched of None \<Rightarrow> 0 | Some t \<Rightarrow> bt_progress t))"
  by (simp add: startBackgroundTask_def started_def Let_def showModal_plain_def showModal_def
        startPolling_def poll_progress_cases zero_progress_def
        split: fetch_result.splits option.splits)

lemma handleApprovePlanAndExecute_progress:
  "js_truthy (generatedPlan s) \<Longrightarrow>
     progress (autonomousProgress
        (handleApprovePlanAndExecute now_iso Date_parse fetched ls resp s))
       = (case started resp of
            None \<Rightarrow> 0
          | Some tid \<Rightarrow> (case fetched of None \<Rightarrow> 0 | Some t \<Rightarrow> bt_progress t))"
  by (simp add: handleApprovePlanAndExecute_def started_def Let_def showModal_plain_def
        showModal_def startPolling_def poll_progress_cases zero_progress_def
        split: fetch_result.splits option.splits)

text \<open>
  Claim C2 as stated fails.  The observer holds progress 50; a poll of a running task
  whose record says 10 brings it down to 10, and a \<^verbatim>\<open>'decision'\<close> event that carries
  no progress brings it down to 0.
\<close>

theorem progress_regression_counterexample:
  "progress (autonomousProgress
      (poll (\<lambda>x. 0) (Some (sample_task \<lparr> bt_progress := 10 \<rparr>)) [] sample_client))
     < progress (autonomousProgress sample_client)
   \<and> progress (process_event 0 [] (E_decision None (Some ''thinking'')) sample_progress)
     < progress sample_progress"
  by (simp add: poll_def poll_update_def poll_logs_update_def initial_client_def
        sample_client_def sample_task_def sample_progress_def
        zero_progress_def terminal_status_def addLog_def decision_update_def num_or_def Let_def)

text \<open>
  Claim C2, amended.  The observer copies what is reported: after a poll its progress is
  the polled task's progress, after a \<^verbatim>\<open>'decision'\<close> event it is the event's progress
  (0 when the event has none).  So the new progress is at least the previous one whenever
  the reported value is; the component adds no check of its own.  Starting a fresh task
  (directly or by approving a plan) sets the progress to 0: it is 0 when the handler is
  through unless the task was started and its first poll got a record, and then it is
  that record's progress.
\<close>

theorem progress_follows_reports:
  "progress (autonomousProgress (poll Date_parse (Some t) ls s)) = bt_progress t
   \<and> progress (process_event now msg (E_decision p a) prev) = num_or p 0
   \<and> (progress (autonomousProgress s) \<le> bt_progress t \<longrightarrow>
        progress (autonomousProgress s)
          \<le> progress (autonomousProgress (poll Date_parse (Some t) ls s)))
   \<and> (progress prev \<le> num_or p 0 \<longrightarrow>
        progress prev \<le> progress (process_event now msg (E_decision p a) prev))
   \<and> (\<not> inputs_missing s \<longrightarrow>
        progress (autonomousProgress (startBackgroundTask Date_parse None ls sresp s)) = 0
        \<and> progress (autonomousProgress (startBackgroundTask Date_parse fetched ls sresp s))
            = (case started sresp of
                 None \<Rightarrow> 0
               | Some tid \<Rightarrow> (case fetched of None \<Rightarrow> 0 | Some t' \<Rightarrow> bt_progress t')))
   \<and> (js_truthy (generatedPlan s) \<longrightarrow>
        progress (autonomousProgress
           (handleApprovePlanAndExecute now_iso Date_parse None ls sresp s)) = 0
        \<and> progress (autonomousProgress
             (handleApprovePlanAndExecute now_iso Date_parse fetched ls sresp s))
            = (case started sresp of
                 None \<Rightarrow> 0
               | Some tid \<Rightarrow> (case fetched of None \<Rightarrow> 0 | Some t' \<Rightarrow> bt_progress t')))"
proof -
  have start: "progress (autonomousProgress (startBackgroundTask Date_parse None ls sresp s)) = 0"
    if "\<not> inputs_missing s"
    using startBackgroundTask_progress [OF that, of Date_parse None ls sresp]
    by (simp split: option.splits)
  have approve: "progress (autonomousProgress
           (handleApprovePlanAndExecute now_iso Date_parse None ls sresp s)) = 0"
    if "js_truthy (generatedPlan s)"
    using handleApprovePlanAndExecute_progress [OF that, of now_iso Date_parse None ls sresp]
    by (simp split: option.splits)
  show ?thesis
    using start approve
          startBackgroundTask_progress [of s Date_parse fetched ls sresp]
          handleApprovePlanAndExecute_progress [of s now_iso Date_parse fetched ls sresp]
    unfolding poll_progress decision_progress
    by simp
qed

text \<open>
  The amended claim at the sample state: reports of 60 and 70 after a progress of 50,
  and fresh starts, once failing and once with a first poll that reports 60.
\<close>

theorem progress_follows_reports_witness:
  "progress (autonomousProgress sample_client) \<le> bt_progress sample_task
   \<and> progress sample_progress \<le> num_or (Some 70) 0
   \<and> \<not> inputs_missing sample_client
   \<and> js_truthy (generatedPlan sample_client)
   \<and> progress (autonomousProgress (poll (\<lambda>x. 0) (Some sample_task) [] sample_client)) = 60
   \<and> progress (process_event 0 [] (E_decision (Some 70) None) sample_progress) = 70
   \<and> progress (autonomousProgress
        (startBackgroundTask (\<lambda>x. 0) None [] Threw sample_client)) = 0
   \<and> progress (autonomousProgress
        (startBackgroundTask (\<lambda>x. 0) (Some sample_task) []
           (Ok_json \<lparr> sr_success = True, sr_task_id = Some ''task-1'' \<rparr>) sample_client)) = 60
   \<and> progress (autonomousProgress
        (handleApprovePlanAndExecute ''2025-01-01T00:00:00.000Z'' (\<lambda>x. 0) None [] Threw
           sample_client)) = 0"
proof -
  have a: "progress (autonomousProgress sample_client) = 50"
    by (simp add: sample_client_def initial_client_def sample_progress_def)
  have b: "bt_progress sample_task = 60" by (simp add: sample_task_def)
  have c: "progress sample_progress = 50" by (simp add: sample_progress_def)
  have st: "started (Ok_json \<lparr> sr_success = True, sr_task_id = Some ''task-1'' \<rparr>)
              = Some ''task-1''"
    by (simp add: started_def start_succeeded_def str_or_undefined_def)
  show ?thesis
    using progress_follows_reports [of "\<lambda>x. 0" sample_task "[]" sample_client 0 "[]"
            "Some 70" None sample_progress Threw "Some sample_task"
            "''2025-01-01T00:00:00.000Z''"]
          progress_follows_reports [of "\<lambda>x. 0" sample_task "[]" sample_client 0 "[]"
            "Some 70" None sample_progress
            "Ok_json \<lparr> sr_success = True, sr_task_id = Some ''task-1'' \<rparr>" "Some sample_task"
            "''2025-01-01T00:00:00.000Z''"]
          sample_inputs_present sample_plan_present a b c st
    by (simp add: num_or_def)
qed

subsection \<open>Resuming\<close>









subsection \<open>Cancelling\<close>

text \<open>
  Claim C4 as stated fails.  A cancel with \<open>purgeLogs\<close> true sends
  \<^verbatim>\<open>purge_logs: true\<close>, but when the endpoint's response is not ok the component keeps
  its log list and its created-file list.
\<close>

theorem cancel_keeps_logs_counterexample:
  "purge_logs (cancelTask_request (Some True) (Some True))
   \<and> logs (autonomousProgress (cancelTask ''task-1'' (Some True) (Some True) Not_ok sample_client))
       \<noteq> []
   \<and> filesCreated
        (autonomousProgress (cancelTask ''task-1'' (Some True) (Some True) Not_ok sample_client))
       \<noteq> []"
  by (simp add: cancelTask_request_def default_param_def cancelTask_def sample_client_def
        initial_client_def sample_progress_def)

lemma cancelTask_ok_progress:
  "autonomousProgress (cancelTask taskId pf pl (Ok_json d) s) =
     (if default_param False pl
      then (autonomousProgress s) \<lparr> logs := [], filesCreated := [] \<rparr>
      else autonomousProgress s)"
  by (simp add: cancelTask_def Let_def stopPolling_def showModal_plain_def showModal_def)

text \<open>
  Claim C4, amended.  \<^verbatim>\<open>cancelTask\<close> sends both purge booleans, each defaulting to
  false when the argument is left out (as the cancel button of the task list does).  On
  an ok response the component clears its log list and its created-file list when
  \<open>purgeLogs\<close> is true and keeps them otherwise; on a response that is not ok, or a
  failed request, it changes nothing.  The confirmation modal has exactly three buttons:
  do nothing, cancel and purge neither, cancel and purge both.
\<close>

theorem cancel_purges_on_ok_response:
  "cancelTask_request pf pl
     = \<lparr> purge_files = (case pf of None \<Rightarrow> False | Some b \<Rightarrow> b),
         purge_logs = (case pl of None \<Rightarrow> False | Some b \<Rightarrow> b) \<rparr>
   \<and> cancelTask_request None None = \<lparr> purge_files = False, purge_logs = False \<rparr>
   \<and> autonomousProgress (cancelTask taskId pf (Some True) (Ok_json d) s)
       = (autonomousProgress s) \<lparr> logs := [], filesCreated := [] \<rparr>
   \<and> autonomousProgress (cancelTask taskId pf (Some False) (Ok_json d) s) = autonomousProgress s
   \<and> autonomousProgress (cancelTask taskId pf None (Ok_json d) s) = autonomousProgress s
   \<and> cancelTask taskId pf pl Not_ok s = s
   \<and> cancelTask taskId pf pl Threw s = s
   \<and> map snd (modal_buttons (modal (cancelTaskWithConfirm taskId s)))
       = [Some CB_nothing, Some (CB_cancelTask taskId False False),
          Some (CB_cancelTask taskId True True)]
   \<and> run_callback (CB_cancelTask taskId True True) resp s
       = cancelTask taskId (Some True) (Some True) resp s
   \<and> run_callback (CB_cancelTask taskId False False) resp s
       = cancelTask taskId (Some False) (Some False) resp s
   \<and> run_callback CB_nothing resp s = s
   \<and> click_cancel t resp s = cancelTask (bt_id t) None None resp s"
  unfolding cancelTask_ok_progress
  by (simp add: cancelTask_request_def default_param_def cancelTask_def
        cancelTaskWithConfirm_def showModal_def modal_buttons_def str_or_undefined_def
        str_or_def cancel_third_text_def cancel_cancel_text_def cancel_confirm_text_def
        click_cancel_def)

subsection \<open>Clearing the history\<close>

text \<open>
  Claim C5 as stated fails.  In a state whose record says complete, iteration 2,
  progress 50, pressing the clear-history button and confirming leaves a record that
  says not complete, iteration 0, progress 0.
\<close>

theorem clear_history_resets_counterexample:
  "isComplete (autonomousProgress
      (sample_client \<lparr> autonomousProgress := sample_progress \<lparr> isComplete := True \<rparr> \<rparr>))
   \<and> \<not> isComplete (autonomousProgress
      (run (sample_client \<lparr> autonomousProgress := sample_progress \<lparr> isComplete := True \<rparr> \<rparr>)
         [Ev_clear_history, Ev_click_confirm Threw]))
   \<and> iteration (autonomousProgress
      (sample_client \<lparr> autonomousProgress := sample_progress \<lparr> isComplete := True \<rparr> \<rparr>)) = 2
   \<and> iteration (autonomousProgress
      (run (sample_client \<lparr> autonomousProgress := sample_progress \<lparr> isComplete := True \<rparr> \<rparr>)
         [Ev_clear_history, Ev_click_confirm Threw])) = 0
   \<and> progress (autonomousProgress
      (sample_client \<lparr> autonomousProgress := sample_progress \<lparr> isComplete := True \<rparr> \<rparr>)) = 50
   \<and> progress (autonomousProgress
      (run (sample_client \<lparr> autonomousProgress := sample_progress \<lparr> isComplete := True \<rparr> \<rparr>)
         [Ev_clear_history, Ev_click_confirm Threw])) = 0"
  by (simp add: run_def click_clear_history_def showModal_def click_modal_button_def
        closeModal_def clear_history_def zero_progress_def sample_progress_def)

text \<open>
  Claim C5, amended.  Clearing the history replaces the observer's whole progress record
  by the zero record (iteration 0, progress 0, not complete, no logs, no created files,
  no phase) and removes its saved copy from the storage.  It sends nothing to the
  server and leaves the component's list of background tasks and the current task id as
  they were.
\<close>

theorem clear_history_resets_whole_record:
  "autonomousProgress (clear_history s) = zero_progress
   \<and> iteration (autonomousProgress (clear_history s)) = 0
   \<and> progress (autonomousProgress (clear_history s)) = 0
   \<and> \<not> isComplete (autonomousProgress (clear_history s))
   \<and> logs (autonomousProgress (clear_history s)) = []
   \<and> filesCreated (autonomousProgress (clear_history s)) = []
   \<and> localStorage (clear_history s) = (localStorage s) (''autonomousProgress'' := None)
   \<and> backgroundTasks (clear_history s) = backgroundTasks s
   \<and> currentTaskId (clear_history s) = currentTaskId s
   \<and> run s [Ev_clear_history, Ev_click_confirm resp]
       = clear_history (closeModal (click_clear_history s))"
  by (simp add: run_def click_clear_history_def showModal_def click_modal_button_def
        closeModal_def clear_history_def zero_progress_def)

subsection \<open>The worker limit\<close>

lemma poll_maxParallelWorkers:
  "maxParallelWorkers (poll Date_parse fetched ls s) = maxParallelWorkers s"
  by (simp add: poll_def Let_def stopPolling_def split: option.splits)

lemma startPolling_maxParallelWorkers:
  "maxParallelWorkers (startPolling Date_parse fetched ls taskId s) = maxParallelWorkers s"
  by (simp add: startPolling_def poll_maxParallelWorkers)

lemma cancelTask_maxParallelWorkers:
  "maxParallelWorkers (cancelTask taskId pf pl resp s) = maxParallelWorkers s"
  by (simp add: cancelTask_def Let_def stopPolling_def showModal_plain_def showModal_def
        split: fetch_result.splits)

lemma run_callback_maxParallelWorkers:
  "maxParallelWorkers (run_callback c resp s) = maxParallelWorkers s"
  by (cases c) (simp_all add: cancelTask_maxParallelWorkers clear_history_def)

lemma click_modal_button_maxParallelWorkers:
  "maxParallelWorkers (click_modal_button cb resp s) = maxParallelWorkers s"
  by (simp add: click_modal_button_def run_callback_maxParallelWorkers closeModal_def
        split: option.splits)

lemma handleGeneratePlan_maxParallelWorkers:
  "maxParallelWorkers (handleGeneratePlan fb resp s) = maxParallelWorkers s"
  by (simp add: handleGeneratePlan_def Let_def showModal_plain_def showModal_def
        split: fetch_result.splits)

lemma startBackgroundTask_maxParallelWorkers:
  "maxParallelWorkers (startBackgroundTask Date_parse fetched ls resp s) = maxParallelWorkers s"
  by (simp add: startBackgroundTask_def Let_def showModal_plain_def showModal_def
        startPolling_maxParallelWorkers split: fetch_result.splits option.splits)

lemma handleApprovePlanAndExecute_maxParallelWorkers:
  "maxParallelWorkers (handleApprovePlanAndExecute now_iso Date_parse fetched ls resp s)
     = maxParallelWorkers s"
  by (simp add: handleApprovePlanAndExecute_def Let_def showModal_plain_def showModal_def
        startPolling_maxParallelWorkers split: fetch_result.splits option.splits)

lemma resumeTask_maxParallelWorkers:
  "maxParallelWorkers (resumeTask Date_parse fetched ls taskId resp s) = maxParallelWorkers s"
  by (simp add: resumeTask_def startPolling_maxParallelWorkers showModal_plain_def
        showModal_def split: fetch_result.splits option.splits)

lemma click_show_progress_maxParallelWorkers:
  "maxParallelWorkers (click_show_progress Date_parse fetched ls t s) = maxParallelWorkers s"
  by (simp add: click_show_progress_def Let_def startPolling_maxParallelWorkers
        split: option.splits)

lemma mount_effect_maxParallelWorkers:
  "maxParallelWorkers (mount_effect Date_parse fetched ls status s) = maxParallelWorkers s"
  by (simp add: mount_effect_def startPolling_maxParallelWorkers split: option.splits)

lemma onChange_maxParallelWorkers_bounds:
  "1 \<le> maxParallelWorkers (onChange_maxParallelWorkers v s)
   \<and> maxParallelWorkers (onChange_maxParallelWorkers v s) \<le> 50"
  by (simp add: onChange_maxParallelWorkers_def)

lemma step_maxParallelWorkers_bounds:
  assumes "1 \<le> maxParallelWorkers s \<and> maxParallelWorkers s \<le> 50"
  shows "1 \<le> maxParallelWorkers (step s ev) \<and> maxParallelWorkers (step s ev) \<le> 50"
proof (cases ev)
  case (Ev_edit_maxParallelWorkers v)
  then show ?thesis using onChange_maxParallelWorkers_bounds [of v s] by simp
qed (use assms in \<open>simp_all add: onChange_maxIterations_def discard_plan_def
      handleGeneratePlan_maxParallelWorkers startBackgroundTask_maxParallelWorkers
      handleApprovePlanAndExecute_maxParallelWorkers cancelTaskWithConfirm_def showModal_def
      click_modal_button_maxParallelWorkers click_cancel_def cancelTask_maxParallelWorkers
      click_resume_def resumeTask_maxParallelWorkers click_clear_history_def
      poll_maxParallelWorkers click_show_progress_maxParallelWorkers
      mount_effect_maxParallelWorkers\<close>)

lemma run_maxParallelWorkers_bounds:
  "1 \<le> maxParallelWorkers s \<and> maxParallelWorkers s \<le> 50 \<Longrightarrow>
   1 \<le> maxParallelWorkers (run s evs) \<and> maxParallelWorkers (run s evs) \<le> 50"
  unfolding run_def
proof (induction evs arbitrary: s)
  case Nil
  then show ?case by simp
next
  case (Cons ev evs)
  from step_maxParallelWorkers_bounds [OF Cons.prems] Cons.IH [of "step s ev"]
  show ?case by simp
qed

text \<open>
  Claim C6.  Whatever is entered in the input, the stored \<open>maxParallelWorkers\<close> is
  \<open>min 50 (max 1 input)\<close> and so lies between 1 and 50; the initial value is 10 and no
  other handler writes the cell, so in every state the component reaches the plan request
  and the background-start request carry a \<^verbatim>\<open>max_parallel_workers\<close> between 1 and 50.
\<close>

theorem maxParallelWorkers_within_bounds:
  "maxParallelWorkers (onChange_maxParallelWorkers v s) = min 50 (max 1 (Number v))
   \<and> 1 \<le> maxParallelWorkers (onChange_maxParallelWorkers v s)
   \<and> maxParallelWorkers (onChange_maxParallelWorkers v s) \<le> 50
   \<and> 1 \<le> max_parallel_workers (plan_requestBody fb (run (initial_client restored storage) evs))
   \<and> max_parallel_workers (plan_requestBody fb (run (initial_client restored storage) evs)) \<le> 50
   \<and> 1 \<le> max_parallel_workers (background_requestBody (run (initial_client restored storage) evs))
   \<and> max_parallel_workers (background_requestBody (run (initial_client restored storage) evs)) \<le> 50"
proof -
  have "1 \<le> maxParallelWorkers (initial_client restored storage)
        \<and> maxParallelWorkers (initial_client restored storage) \<le> 50"
    by (simp add: initial_client_def)
  from run_maxParallelWorkers_bounds [OF this, of evs] onChange_maxParallelWorkers_bounds [of v s]
  show ?thesis
    by (simp add: plan_requestBody_def background_requestBody_def onChange_maxParallelWorkers_def)
qed

subsection \<open>Plan generation\<close>



















text \<open>
  Claim C7.  When the plan endpoint's answer is not a success carrying a plan,
  \<open>planError\<close> is the failure text followed by the raw output of the answer
  (\<^verbatim>\<open>Unknown error\<close> when it has none), \<open>generatedPlan\<close> is null and the planning
  phase is back to none.  When the request fails or the response is not ok, the plan is
  null and the phase none as well, with the fixed error text.
\<close>

theorem failed_plan_reports_raw_output:
  "(\<not> inputs_missing s \<and> \<not> (success d \<and> js_truthy (pr_plan d)) \<longrightarrow>
      planError (handleGeneratePlan fb (Ok_json d) s)
        = Some (plan_failed_prefix @ str_or (raw_output d) ''Unknown error'')
      \<and> (\<forall>r. raw_output d = Some r \<and> r \<noteq> [] \<longrightarrow>
           planError (handleGeneratePlan fb (Ok_json d) s) = Some (plan_failed_prefix @ r))
      \<and> generatedPlan (handleGeneratePlan fb (Ok_json d) s) = None
      \<and> planningPhase (handleGeneratePlan fb (Ok_json d) s) = PP_none)
   \<and> (\<not> inputs_missing s \<longrightarrow>
      generatedPlan (handleGeneratePlan fb Not_ok s) = None
      \<and> planningPhase (handleGeneratePlan fb Not_ok s) = PP_none
      \<and> planError (handleGeneratePlan fb Not_ok s) = Some plan_exception_message
      \<and> generatedPlan (handleGeneratePlan fb Threw s) = None
      \<and> planningPhase (handleGeneratePlan fb Threw s) = PP_none
      \<and> planError (handleGeneratePlan fb Threw s) = Some plan_exception_message)"
  by (auto simp: handleGeneratePlan_def Let_def str_or_def)

text \<open>The same at the sample state, which had a plan, for an answer with raw output.\<close>

theorem failed_plan_reports_raw_output_witness:
  "\<not> inputs_missing sample_client
   \<and> \<not> (success \<lparr> success = False, pr_plan = None, raw_output = Some ''not json'' \<rparr>
        \<and> js_truthy (pr_plan \<lparr> success = False, pr_plan = None,
                                raw_output = Some ''not json'' \<rparr>))
   \<and> generatedPlan sample_client = Some (plan_toJSON sample_plan)
   \<and> planError (handleGeneratePlan None
        (Ok_json \<lparr> success = False, pr_plan = None, raw_output = Some ''not json'' \<rparr>)
        sample_client) = Some (plan_failed_prefix @ ''not json'')
   \<and> generatedPlan (handleGeneratePlan None
        (Ok_json \<lparr> success = False, pr_plan = None, raw_output = Some ''not json'' \<rparr>)
        sample_client) = None
   \<and> planningPhase (handleGeneratePlan None
        (Ok_json \<lparr> success = False, pr_plan = None, raw_output = Some ''not json'' \<rparr>)
        sample_client) = PP_none"
  using failed_plan_reports_raw_output [of sample_client
          "\<lparr> success = False, pr_plan = None, raw_output = Some ''not json'' \<rparr>" None]
        sample_inputs_present
  by (simp add: sample_client_def str_or_def)




subsection \<open>The conductor is not a worker\<close>

text \<open>
  Claim C9.  In the body of every plan request and every background-start request
  \<^verbatim>\<open>worker_model_ids\<close> does not contain \<^verbatim>\<open>conductor_model_id\<close>, which is the selected
  conductor model.
\<close>

theorem conductor_never_among_workers:
  "conductor_model_id (plan_requestBody fb s) \<notin> set (worker_model_ids (plan_requestBody fb s))
   \<and> conductor_model_id (background_requestBody s)
       \<notin> set (worker_model_ids (background_requestBody s))
   \<and> conductor_model_id (direct_requestBody s)
       \<notin> set (worker_model_ids (direct_requestBody s))
   \<and> (handleGeneratePlan_request fb s = Some r1 \<longrightarrow>
        conductor_model_id r1 = conductorModel s \<and> conductorModel s \<notin> set (worker_model_ids r1))
   \<and> (startBackgroundTask_request s = Some r2 \<longrightarrow>
        conductor_model_id r2 = conductorModel s \<and> conductorModel s \<notin> set (worker_model_ids r2))
   \<and> (handleApprovePlanAndExecute_request s = Some r3 \<longrightarrow>
        conductor_model_id r3 = conductorModel s \<and> conductorModel s \<notin> set (worker_model_ids r3))"
  by (auto simp: plan_requestBody_def background_requestBody_def direct_requestBody_def
        handleGeneratePlan_request_def startBackgroundTask_request_def
        handleApprovePlanAndExecute_request_def split: if_splits)

text \<open>The same at the sample state, whose selected models include the conductor.\<close>

theorem conductor_never_among_workers_witness:
  "handleGeneratePlan_request None sample_client = Some (plan_requestBody None sample_client)
   \<and> startBackgroundTask_request sample_client = Some (background_requestBody sample_client)
   \<and> handleApprovePlanAndExecute_request sample_client
       = Some (background_requestBody sample_client)
   \<and> ''conductor'' \<in> set (selectedModels sample_client)
   \<and> conductor_model_id (plan_requestBody None sample_client) = ''conductor''
   \<and> worker_model_ids (plan_requestBody None sample_client) = [''worker-a'', ''worker-b'']
   \<and> worker_model_ids (background_requestBody sample_client) = [''worker-a'', ''worker-b'']
   \<and> ''conductor'' \<notin> set (worker_model_ids (plan_requestBody None sample_client))
   \<and> ''conductor'' \<notin> set (worker_model_ids (background_requestBody sample_client))"
proof -
  have cm: "conductorModel sample_client = ''conductor''"
    and sm: "selectedModels sample_client = [''conductor'', ''worker-a'', ''worker-b'']"
    by (simp_all add: sample_client_def)
  have r1: "handleGeneratePlan_request None sample_client
              = Some (plan_requestBody None sample_client)"
    using sample_inputs_present by (simp add: handleGeneratePlan_request_def)
  have r2: "startBackgroundTask_request sample_client
              = Some (background_requestBody sample_client)"
    using sample_inputs_present by (simp add: startBackgroundTask_request_def)
  have r3: "handleApprovePlanAndExecute_request sample_client
              = Some (background_requestBody sample_client)"
    using sample_plan_present by (simp add: handleApprovePlanAndExecute_request_def)
  have w1: "worker_model_ids (plan_requestBody None sample_client) = [''worker-a'', ''worker-b'']"
    by (simp add: plan_requestBody_def cm sm)
  have w2: "worker_model_ids (background_requestBody sample_client) = [''worker-a'', ''worker-b'']"
    by (simp add: background_requestBody_def cm sm)
  show ?thesis
    using conductor_never_among_workers [of None sample_client
            "plan_requestBody None sample_client" "background_requestBody sample_client"
            "background_requestBody sample_client"]
          r1 r2 r3 w1 w2
    by (simp add: cm sm)
qed

subsection \<open>Saving and restoring\<close>

lemma log_of_log_toJSON:
  "Date_parse (toISOString (timestamp l)) = timestamp l \<Longrightarrow>
   log_of Date_parse (log_toJSON toISOString l) = Some l"
  by (simp add: log_of_def log_toJSON_def object_of_def required_def map_of_members)

lemma phase_of_phase_toJSON: "phase_of (phase_toJSON ph) = Some ph"
  by (simp add: phase_of_def phase_toJSON_def object_of_def required_def map_of_members)

lemma progress_of_progress_toJSON:
  assumes dates: "\<And>l. l \<in> set (logs p) \<Longrightarrow> Date_parse (toISOString (timestamp l)) = timestamp l"
  shows "progress_of Date_parse (progress_toJSON toISOString p) = Some p"
proof -
  have logs_back: "as_list (log_of Date_parse) (JArr (map (log_toJSON toISOString) (logs p)))
                     = Some (logs p)"
    by (rule as_list_JArr_map) (simp add: log_of_log_toJSON dates)
  have files_back: "as_list as_str (JArr (map JStr (filesCreated p))) = Some (filesCreated p)"
    by (rule as_list_JArr_map) simp
  have phases_back: "as_list phase_of (JArr (map phase_toJSON phs)) = Some phs" for phs
    by (rule as_list_JArr_map) (simp add: phase_of_phase_toJSON)
  show ?thesis
    unfolding progress_of_def progress_toJSON_def object_of_def
    by (simp add: map_of_members required_def optional_def logs_back files_back phases_back
          case_option_Some_Some)
qed

lemma no_throw_progress_toJSON: "\<not> revival_throws (progress_toJSON toISOString p)"
  unfolding revival_throws_def progress_toJSON_def object_of_def
  by (auto simp: map_of_members log_toJSON_def object_of_def)

lemma restore_saved:
  assumes reads: "parse saved = Some (progress_toJSON toISOString p)"
    and nonempty: "saved \<noteq> []"
    and dates: "\<And>l. l \<in> set (logs p) \<Longrightarrow> Date_parse (toISOString (timestamp l)) = timestamp l"
    and stored: "storage ''autonomousProgress'' = Some saved"
  shows "restore_progress parse Date_parse (Some storage) = Restored p"
  using reads nonempty stored progress_of_progress_toJSON [of p Date_parse toISOString, OF dates]
    no_throw_progress_toJSON [of toISOString p]
  by (simp add: restore_progress_def str_or_undefined_def)

text \<open>
  Claim C10.  A progress record with a log entry or a positive iteration is written
  under the key \<^verbatim>\<open>autonomousProgress\<close>, and the initialiser of the next load gives the
  same record back, each log timestamp read again from its serialised string; a record
  with no log entry and iteration 0 is not written.  This holds for a runtime in which
  \<^verbatim>\<open>JSON.parse\<close> reads back what \<^verbatim>\<open>JSON.stringify\<close> wrote for this record, that text
  is not empty, and the \<^verbatim>\<open>Date\<close> constructor reads back the ISO string of each log
  timestamp.  When the saved string is not parseable JSON the initialiser gives the
  initial record: iteration 0, progress 0, no logs, no files, not complete.
\<close>

theorem saved_progress_is_restored:
  "((logs (autonomousProgress s) \<noteq> [] \<or> iteration (autonomousProgress s) > 0)
     \<and> parse (stringify (progress_toJSON toISOString (autonomousProgress s)))
          = Some (progress_toJSON toISOString (autonomousProgress s))
     \<and> stringify (progress_toJSON toISOString (autonomousProgress s)) \<noteq> []
     \<and> (\<forall>l \<in> set (logs (autonomousProgress s)).
           Date_parse (toISOString (timestamp l)) = timestamp l)
    \<longrightarrow> localStorage (save_progress stringify toISOString s) ''autonomousProgress''
          = Some (stringify (progress_toJSON toISOString (autonomousProgress s)))
        \<and> restore_progress parse Date_parse
             (Some (localStorage (save_progress stringify toISOString s)))
          = Restored (autonomousProgress s))
   \<and> (logs (autonomousProgress s) = [] \<and> iteration (autonomousProgress s) \<le> 0
        \<longrightarrow> save_progress stringify toISOString s = s)
   \<and> (storage ''autonomousProgress'' = Some saved \<and> parse saved = None
        \<longrightarrow> restore_progress parse Date_parse (Some storage) = Restored initial_progress)
   \<and> iteration initial_progress = 0 \<and> progress initial_progress = 0
   \<and> logs initial_progress = [] \<and> filesCreated initial_progress = []
   \<and> \<not> isComplete initial_progress"
proof -
  let ?p = "autonomousProgress s"
  let ?text = "stringify (progress_toJSON toISOString ?p)"
  have round: "restore_progress parse Date_parse
                 (Some (localStorage (save_progress stringify toISOString s))) = Restored ?p"
    if cond: "logs ?p \<noteq> [] \<or> iteration ?p > 0"
      and reads: "parse ?text = Some (progress_toJSON toISOString ?p)"
      and nonempty: "?text \<noteq> []"
      and dates: "\<forall>l \<in> set (logs ?p). Date_parse (toISOString (timestamp l)) = timestamp l"
  proof (rule restore_saved [where saved = ?text and toISOString = toISOString])
    show "parse ?text = Some (progress_toJSON toISOString ?p)" by (rule reads)
    show "?text \<noteq> []" by (rule nonempty)
    show "Date_parse (toISOString (timestamp l)) = timestamp l" if "l \<in> set (logs ?p)" for l
      using dates that by blast
    show "localStorage (save_progress stringify toISOString s) ''autonomousProgress'' = Some ?text"
      using cond by (auto simp: save_progress_def)
  qed
  have saved: "localStorage (save_progress stringify toISOString s) ''autonomousProgress''
                 = Some ?text"
    if "logs ?p \<noteq> [] \<or> iteration ?p > 0"
    using that by (auto simp: save_progress_def)
  have skipped: "save_progress stringify toISOString s = s"
    if "logs ?p = [] \<and> iteration ?p \<le> 0"
    using that by (simp add: save_progress_def)
  have fallback: "restore_progress parse Date_parse (Some storage) = Restored initial_progress"
    if "storage ''autonomousProgress'' = Some saved \<and> parse saved = None"
    using that by (simp add: restore_progress_def str_or_undefined_def)
  have zero: "iteration initial_progress = 0 \<and> progress initial_progress = 0
      \<and> logs initial_progress = [] \<and> filesCreated initial_progress = []
      \<and> \<not> isComplete initial_progress"
    by (simp add: initial_progress_def zero_progress_def)
  from round saved skipped fallback zero show ?thesis by blast
qed

text \<open>
  The same for the sample state and the sample runtime, and for a saved string that is
  not JSON.
\<close>

theorem saved_progress_is_restored_witness:
  "logs (autonomousProgress sample_client) \<noteq> []
   \<and> sample_parse (sample_stringify
         (progress_toJSON sample_toISOString (autonomousProgress sample_client)))
       = Some (progress_toJSON sample_toISOString (autonomousProgress sample_client))
   \<and> sample_stringify (progress_toJSON sample_toISOString (autonomousProgress sample_client))
       = sample_text
   \<and> sample_text \<noteq> []
   \<and> map timestamp (logs (autonomousProgress sample_client)) = [0]
   \<and> sample_Date_parse (sample_toISOString 0) = 0
   \<and> localStorage (save_progress sample_stringify sample_toISOString sample_client)
        ''autonomousProgress'' = Some sample_text
   \<and> restore_progress sample_parse sample_Date_parse
        (Some (localStorage (save_progress sample_stringify sample_toISOString sample_client)))
       = Restored sample_progress
   \<and> [''autonomousProgress'' \<mapsto> ''{not json''] ''autonomousProgress'' = Some ''{not json''
   \<and> sample_parse ''{not json'' = None
   \<and> restore_progress sample_parse sample_Date_parse
        (Some [''autonomousProgress'' \<mapsto> ''{not json'']) = Restored initial_progress"
proof -
  have ap: "autonomousProgress sample_client = sample_progress"
    by (simp add: sample_client_def initial_client_def)
  have lg: "logs sample_progress
              = [\<lparr> log_type = ''info'', message = ''started'', timestamp = 0 \<rparr>]"
    by (simp add: sample_progress_def)
  have nonempty_text: "sample_text \<noteq> []" by (simp add: sample_text_def)
  have bad: "sample_parse ''{not json'' = None"
    by (simp add: sample_parse_def sample_text_def)
  have str: "sample_stringify (progress_toJSON sample_toISOString sample_progress) = sample_text"
    by (simp add: sample_stringify_def)
  have prs: "sample_parse sample_text
               = Some (progress_toJSON sample_toISOString sample_progress)"
    by (simp add: sample_parse_def)
  have dt: "\<forall>l \<in> set (logs sample_progress).
              sample_Date_parse (sample_toISOString (timestamp l)) = timestamp l"
    by (simp add: lg sample_Date_parse_def sample_toISOString_def)
  show ?thesis
    using saved_progress_is_restored [of sample_client sample_parse sample_stringify
            sample_toISOString sample_Date_parse
            "[''autonomousProgress'' \<mapsto> ''{not json'']" "''{not json''"]
          nonempty_text bad str prs dt
    by (simp add: ap lg sample_Date_parse_def sample_toISOString_def)
qed

end
